theory Spec2Isabelle
  imports Complex_Main "HOL-Library.Sublist"
begin

section \<open>The map builds of \<^verbatim>\<open>map.py\<close> and \<^verbatim>\<open>sameinad.py\<close>\<close>

text \<open>
  Both scripts define a function \<^verbatim>\<open>map\<close> that reads three result sets, enriches them and
  assembles a folium map. The embedding follows the two functions line by line. The
  libraries they call (shapely, numpy, matplotlib, folium) are not part of the
  repository: their functions are parameters of the model, collected in records, and a
  call that can raise returns a sum whose left side is the error. Python floats are
  idealised as rationals.
\<close>

subsection \<open>Errors\<close>

datatype error = WKTReadingError | IndexError | AttributeError | ValueError | AssertionError

text \<open>A loop that builds one item per row and stops at the first exception.\<close>

fun traverse :: "('a \<Rightarrow> error + 'b) \<Rightarrow> 'a list \<Rightarrow> error + 'b list" where
  "traverse f [] = Inr []"
| "traverse f (x # xs) =
     (case f x of
        Inl e \<Rightarrow> Inl e
      | Inr y \<Rightarrow> (case traverse f xs of Inl e \<Rightarrow> Inl e | Inr ys \<Rightarrow> Inr (y # ys)))"

subsection \<open>Result sets\<close>

text \<open>
  The columns of the three queries (\<^verbatim>\<open>gid, name, type | claimedby, summary, geom_wkt\<close>),
  and the columns the function adds: \<^verbatim>\<open>geometry\<close>, \<^verbatim>\<open>population\<close>, \<^verbatim>\<open>color\<close>, and in
  \<^verbatim>\<open>map.py\<close> \<^verbatim>\<open>tooltip\<close> and \<^verbatim>\<open>popup\<close>. A frame read from the database has no geometry
  yet: its \<open>geometry\<close> column has type \<open>unit\<close>. A SQL NULL summary is \<open>None\<close>.
\<close>

record 'g atlas_row =
  gid :: int
  name :: string
  summary :: "string option"
  geom_wkt :: string
  geometry :: 'g

record 'g location_row = "'g atlas_row" +
  type :: string

record 'g kingdom_row = "'g atlas_row" +
  claimedby :: string

record 'g house_row = "'g location_row" +
  population :: int

record 'g kingdom_colored = "'g kingdom_row" +
  color :: string

record 'g kingdom_feature = "'g kingdom_colored" +
  tooltip :: string
  popup :: string

subsection \<open>The libraries, as parameters\<close>

text \<open>
  shapely: \<^verbatim>\<open>wkt.loads\<close>, the \<^verbatim>\<open>unary_union\<close> of a geometry column, \<^verbatim>\<open>.centroid\<close>,
  \<^verbatim>\<open>.coords[:]\<close> and the attributes \<^verbatim>\<open>.x\<close> and \<^verbatim>\<open>.y\<close> of a geometry.
\<close>

record 'g shapely =
  wkt_loads :: "string \<Rightarrow> error + 'g"
  unary_union :: "'g list \<Rightarrow> 'g"
  centroid :: "'g \<Rightarrow> 'g"
  coords :: "'g \<Rightarrow> (rat \<times> rat) list"
  point_x :: "'g \<Rightarrow> error + rat"
  point_y :: "'g \<Rightarrow> error + rat"

text \<open>
  numpy's global generator: \<^verbatim>\<open>np.random.seed(k)\<close> replaces the generator's state by one
  that depends on \<open>k\<close> only; \<^verbatim>\<open>np.random.randint(low, high, size=n)\<close> reads the state,
  returns the draws and leaves a new state.
\<close>

record 's np_random =
  seed :: "int \<Rightarrow> 's"
  randint :: "'s \<Rightarrow> int \<Rightarrow> int \<Rightarrow> nat \<Rightarrow> int list \<times> 's"

text \<open>
  matplotlib: \<^verbatim>\<open>cm.get_cmap(name, n)\<close> is a colormap, a function from a number to a
  colour; \<^verbatim>\<open>colors.rgb2hex\<close> turns a colour into a string.
\<close>

record 'c matplotlib =
  get_cmap :: "string \<Rightarrow> nat \<Rightarrow> rat \<Rightarrow> 'c"
  rgb2hex :: "'c \<Rightarrow> string"

text \<open>
  folium checks the location of a \<^verbatim>\<open>Map\<close>, a \<^verbatim>\<open>Marker\<close> and a \<^verbatim>\<open>CircleMarker\<close> and raises
  \<open>ValueError\<close> on one it refuses.
\<close>

record ('g, 's, 'c) libraries =
  shapely :: "'g shapely"
  np_random :: "'s np_random"
  matplotlib :: "'c matplotlib"
  validate_location :: "rat \<times> rat \<Rightarrow> bool"

subsection \<open>The folium objects\<close>

record tile_layer =
  tiles :: string
  attr :: string
  tile_name :: string
  overlay :: bool
  control :: bool

record folium_popup =
  html :: string
  max_width :: nat

record folium_icon =
  icon :: string
  prefix :: string
  icon_color :: string
  marker_color :: string

record marker =
  marker_location :: "rat \<times> rat"
  marker_popup :: folium_popup
  marker_icon :: folium_icon

record circle_marker =
  circle_location :: "rat \<times> rat"
  radius :: rat
  circle_color :: string
  fill :: bool
  fill_color :: string
  fill_opacity :: rat
  circle_popup :: folium_popup

record style =
  fillColor :: string
  stroke_color :: string
  weight :: nat
  fillOpacity :: rat
  opacity :: nat

text \<open>\<^verbatim>\<open>GeoJsonTooltip\<close> and \<^verbatim>\<open>GeoJsonPopup\<close>: the properties to show and their labels.\<close>

record geojson_detail =
  detail_fields :: "string list"
  detail_aliases :: "string list"
  detail_labels :: bool
  detail_max_width :: "nat option"

record 'f geojson =
  geojson_data :: "'f list"
  geojson_name :: string
  style_function :: "'f \<Rightarrow> style"
  geojson_tooltip :: geojson_detail
  geojson_popup :: geojson_detail

datatype 'f layer =
    TileLayer tile_layer
  | GeoJson "'f geojson"
  | MarkerCluster string "marker list"
  | FeatureGroup string "circle_marker list"
  | LayerControl

record 'f folium_map =
  location :: "rat \<times> rat"
  zoom_start :: nat
  map_tiles :: "string option"
  children :: "'f layer list"

text \<open>\<^verbatim>\<open>child.add_to(m)\<close> appends the child to the map's children.\<close>

definition add_to :: "'f layer \<Rightarrow> 'f folium_map \<Rightarrow> 'f folium_map" where
  "add_to child m = m\<lparr>children := children m @ [child]\<rparr>"

subsection \<open>Strings\<close>

text \<open>\<^verbatim>\<open>str\<close> of an integer, as an f-string prints it.\<close>

fun digits :: "nat \<Rightarrow> string" where
  "digits n =
     (if n < 10 then [char_of (48 + n)] else digits (n div 10) @ [char_of (48 + n mod 10)])"

declare digits.simps [simp del]

definition str_int :: "int \<Rightarrow> string" where
  "str_int i = (if i < 0 then CHR ''-'' # digits (nat (- i)) else digits (nat i))"

text \<open>
  \<^verbatim>\<open>row['summary'] or 'No summary available.'\<close>: \<open>None\<close> and the empty string are falsy.
\<close>

definition summary_or_placeholder :: "string option \<Rightarrow> string" where
  "summary_or_placeholder s =
     (case s of
        None \<Rightarrow> ''No summary available.''
      | Some t \<Rightarrow> if t = [] then ''No summary available.'' else t)"

text \<open>The line break and the twelve blanks that start each line of the popup templates.\<close>

definition line_start :: string where
  "line_start = CHR 0x0A # replicate 12 (CHR '' '')"

subsection \<open>Steps shared by the two builds\<close>

text \<open>
  \<^verbatim>\<open>df['geometry'] = df['geom_wkt'].apply(wkt.loads)\<close>: every row is parsed, in order, and
  the first string \<^verbatim>\<open>wkt.loads\<close> refuses aborts the build.
\<close>

definition with_geometry :: "(unit, 'm) atlas_row_scheme \<Rightarrow> 'g \<Rightarrow> ('g, 'm) atlas_row_scheme" where
  "with_geometry r g =
     \<lparr>gid = gid r, name = name r, summary = summary r, geom_wkt = geom_wkt r,
      geometry = g, \<dots> = atlas_row.more r\<rparr>"

definition load_geometry ::
  "'g shapely \<Rightarrow> (unit, 'm) atlas_row_scheme list \<Rightarrow> error + ('g, 'm) atlas_row_scheme list" where
  "load_geometry sh df =
     traverse (\<lambda>r. case wkt_loads sh (geom_wkt r) of
                      Inl e \<Rightarrow> Inl e
                    | Inr g \<Rightarrow> Inr (with_geometry r g)) df"

text \<open>
  \<^verbatim>\<open>np.random.seed(42); houses_gdf['population'] = np.random.randint(100, 5000, size=len(houses_gdf))\<close>.
  The generator's state on entry is \<open>st\<close>; the seeding overwrites it. pandas raises
  \<open>ValueError\<close> when the column's length is not the frame's.
\<close>

definition assign_population ::
  "'s np_random \<Rightarrow> 's \<Rightarrow> 'g location_row list \<Rightarrow> (error + 'g house_row list) \<times> 's" where
  "assign_population np st houses_gdf =
     (let (pops, st') = randint np (seed np 42) 100 5000 (length houses_gdf)
      in (if length pops = length houses_gdf
          then Inr (map2 (\<lambda>r p. location_row.extend r (house_row.fields p)) houses_gdf pops)
          else Inl ValueError,
          st'))"

text \<open>\<^verbatim>\<open>kingdom_gdf['color'] = [...]\<close>, a list of the frame's length.\<close>

definition set_color :: "'g kingdom_row list \<Rightarrow> string list \<Rightarrow> 'g kingdom_colored list" where
  "set_color kingdom_gdf cs =
     map2 (\<lambda>k c. kingdom_row.extend k (kingdom_colored.fields c)) kingdom_gdf cs"

text \<open>\<^verbatim>\<open>xs[0]\<close> on a list.\<close>

definition first_coord :: "(rat \<times> rat) list \<Rightarrow> error + rat \<times> rat" where
  "first_coord cs = (case cs of [] \<Rightarrow> Inl IndexError | c # _ \<Rightarrow> Inr c)"

text \<open>\<^verbatim>\<open>folium.Map(location=..., zoom_start=5, tiles=None)\<close>.\<close>

definition folium_Map :: "(rat \<times> rat \<Rightarrow> bool) \<Rightarrow> rat \<times> rat \<Rightarrow> error + 'f folium_map" where
  "folium_Map valid loc =
     (if valid loc
      then Inr \<lparr>location = loc, zoom_start = 5, map_tiles = None, children = []\<rparr>
      else Inl ValueError)"

text \<open>The custom tile layer, the same in both files.\<close>

definition carto_tiles :: tile_layer where
  "carto_tiles =
     \<lparr>tiles = ''https://cartocdn-gusc.global.ssl.fastly.net/ramirocartodb/api/v1/map/named/''
              @ ''tpl_756aec63_3adb_48b6_9d14_331c6cbc47cf/all/{z}/{x}/{y}.png'',
      attr = ''CartoDB'', tile_name = ''CartoDB'', overlay = False, control = False\<rparr>"

text \<open>\<^verbatim>\<open>d.get(k, default)\<close> on a dict literal.\<close>

definition dict_get :: "('k \<times> 'v) list \<Rightarrow> 'k \<Rightarrow> 'v \<Rightarrow> 'v" where
  "dict_get d k dflt = (case map_of d k of None \<Rightarrow> dflt | Some v \<Rightarrow> v)"

text \<open>
  The popup template of a location marker, the same in both files:
  \<^verbatim>\<open>Name\<close>, \<^verbatim>\<open>Type\<close> and \<^verbatim>\<open>Summary\<close> lines.
\<close>

definition popup_content_location :: "('g, 'm) location_row_scheme \<Rightarrow> string" where
  "popup_content_location row =
     line_start @ ''<b>Name:</b> '' @ name row @ ''<br>''
     @ line_start @ ''<b>Type:</b> '' @ type row @ ''<br>''
     @ line_start @ ''<b>Summary:</b> '' @ summary_or_placeholder (summary row)
     @ line_start"

text \<open>The popup template of a settlement's circle marker, the same in both files.\<close>

definition popup_content_house :: "('g, 'm) house_row_scheme \<Rightarrow> string" where
  "popup_content_house row =
     line_start @ ''<b>Name:</b> '' @ name row @ ''<br>''
     @ line_start @ ''<b>Population:</b> '' @ str_int (population row) @ ''<br>''
     @ line_start @ ''<b>Type:</b> '' @ type row @ ''<br>''
     @ line_start @ ''<b>Summary:</b> '' @ summary_or_placeholder (summary row)
     @ line_start"

text \<open>
  \<^verbatim>\<open>folium.Marker(location=[row.geometry.y, row.geometry.x], popup=..., icon=...)\<close>: the
  two attribute reads, then folium's check of the location.
\<close>

definition folium_Marker ::
  "('g, 's, 'c) libraries \<Rightarrow> 'g \<Rightarrow> folium_popup \<Rightarrow> folium_icon \<Rightarrow> error + marker" where
  "folium_Marker libs g pop ic =
     (case point_y (shapely libs) g of
        Inl e \<Rightarrow> Inl e
      | Inr y \<Rightarrow>
          (case point_x (shapely libs) g of
             Inl e \<Rightarrow> Inl e
           | Inr x \<Rightarrow>
               if validate_location libs (y, x)
               then Inr \<lparr>marker_location = (y, x), marker_popup = pop, marker_icon = ic\<rparr>
               else Inl ValueError))"

text \<open>
  \<^verbatim>\<open>folium.CircleMarker(location=[row.geometry.y, row.geometry.x], radius=radius,
  color='blue', fill=True, fill_color='blue', fill_opacity=0.6, popup=...)\<close>.
\<close>

definition folium_CircleMarker ::
  "('g, 's, 'c) libraries \<Rightarrow> 'g \<Rightarrow> rat \<Rightarrow> folium_popup \<Rightarrow> error + circle_marker" where
  "folium_CircleMarker libs g r pop =
     (case point_y (shapely libs) g of
        Inl e \<Rightarrow> Inl e
      | Inr y \<Rightarrow>
          (case point_x (shapely libs) g of
             Inl e \<Rightarrow> Inl e
           | Inr x \<Rightarrow>
               if validate_location libs (y, x)
               then Inr \<lparr>circle_location = (y, x), radius = r, circle_color = ''blue'',
                         fill = True, fill_color = ''blue'', fill_opacity = 3 / 5,
                         circle_popup = pop\<rparr>
               else Inl ValueError))"

text \<open>
  \<^verbatim>\<open>houses_gdf['population'].min()\<close> and \<^verbatim>\<open>.max()\<close>: NaN (\<open>None\<close>) on an empty column.
\<close>

definition series_min :: "int list \<Rightarrow> int option" where
  "series_min xs = (case xs of [] \<Rightarrow> None | x # ys \<Rightarrow> Some (fold min ys x))"

definition series_max :: "int list \<Rightarrow> int option" where
  "series_max xs = (case xs of [] \<Rightarrow> None | x # ys \<Rightarrow> Some (fold max ys x))"

text \<open>
  \<^verbatim>\<open>get_radius\<close>, written as a conditional expression in \<^verbatim>\<open>map.py\<close> and as an
  \<^verbatim>\<open>if\<close>/\<^verbatim>\<open>else\<close> in \<^verbatim>\<open>sameinad.py\<close>; \<open>pop_min\<close> and \<open>pop_max\<close> are the closure's
  variables. A comparison with NaN is false.
\<close>

definition get_radius :: "int option \<Rightarrow> int option \<Rightarrow> int \<Rightarrow> rat" where
  "get_radius pop_min pop_max pop =
     (case (pop_min, pop_max) of
        (Some lo, Some hi) \<Rightarrow>
          if hi > lo then 5 + of_int (pop - lo) / of_int (hi - lo) * 10 else 10
      | _ \<Rightarrow> 10)"

text \<open>The body of the loop over \<^verbatim>\<open>houses_gdf.iterrows()\<close>, the same in both files.\<close>

definition house_circle ::
  "('g, 's, 'c) libraries \<Rightarrow> int option \<Rightarrow> int option \<Rightarrow> 'g house_row \<Rightarrow> error + circle_marker" where
  "house_circle libs pop_min pop_max row =
     (let pop = population row;
          radius = get_radius pop_min pop_max pop;
          popup_content = popup_content_house row
      in folium_CircleMarker libs (geometry row) radius
           \<lparr>html = popup_content, max_width = 300\<rparr>)"

definition houses_layer ::
  "('g, 's, 'c) libraries \<Rightarrow> 'g house_row list \<Rightarrow> error + circle_marker list" where
  "houses_layer libs houses_gdf =
     (let pop_min = series_min (map population houses_gdf);
          pop_max = series_max (map population houses_gdf)
      in traverse (house_circle libs pop_min pop_max) houses_gdf)"

subsection \<open>What the polygon layer's tooltip and popup show\<close>

text \<open>
  folium serialises each row of the frame to a GeoJSON feature whose properties are the
  row's columns other than the geometry; a \<^verbatim>\<open>GeoJsonTooltip\<close> or \<^verbatim>\<open>GeoJsonPopup\<close> shows,
  for each of its fields, the alias and the value of that property. A missing summary
  is the JSON \<open>null\<close>.
\<close>

datatype json = JNull | JString string | JNumber int

definition json_of_summary :: "string option \<Rightarrow> json" where
  "json_of_summary s = (case s of None \<Rightarrow> JNull | Some t \<Rightarrow> JString t)"

definition properties_sameinad :: "'g kingdom_colored \<Rightarrow> (string \<times> json) list" where
  "properties_sameinad row =
     [(''gid'', JNumber (gid row)), (''name'', JString (name row)),
      (''claimedby'', JString (claimedby row)), (''summary'', json_of_summary (summary row)),
      (''geom_wkt'', JString (geom_wkt row)), (''color'', JString (color row))]"

definition properties_map_py :: "'g kingdom_feature \<Rightarrow> (string \<times> json) list" where
  "properties_map_py row =
     [(''gid'', JNumber (gid row)), (''name'', JString (name row)),
      (''claimedby'', JString (claimedby row)), (''summary'', json_of_summary (summary row)),
      (''geom_wkt'', JString (geom_wkt row)), (''color'', JString (color row)),
      (''tooltip'', JString (tooltip row)), (''popup'', JString (popup row))]"

definition detail_values :: "geojson_detail \<Rightarrow> (string \<times> json) list \<Rightarrow> (string \<times> json option) list" where
  "detail_values d props =
     map (\<lambda>(f, a). (a, map_of props f)) (zip (detail_fields d) (detail_aliases d))"

text \<open>The strings a popup shows: a \<open>null\<close> or a number is no string.\<close>

fun shown_strings :: "(string \<times> json option) list \<Rightarrow> string list" where
  "shown_strings [] = []"
| "shown_strings ((a, Some (JString s)) # vs) = s # shown_strings vs"
| "shown_strings (_ # vs) = shown_strings vs"

text \<open>The folium class of a child of the map.\<close>

fun layer_class :: "'f layer \<Rightarrow> string" where
  "layer_class (TileLayer _) = ''TileLayer''"
| "layer_class (GeoJson _) = ''GeoJson''"
| "layer_class (MarkerCluster _ _) = ''MarkerCluster''"
| "layer_class (FeatureGroup _ _) = ''FeatureGroup''"
| "layer_class LayerControl = ''LayerControl''"

subsection \<open>Rendering the map\<close>

text \<open>
  Both functions end with \<^verbatim>\<open>return ui.HTML(m._repr_html_())\<close>. When the map is rendered,
  the tooltip and the popup of a polygon layer check each of their fields against the
  property names of the layer's first feature and raise \<open>AssertionError\<close> on a field
  that is not among them; a layer without a feature has no property name. The model
  returns the map itself when the rendering succeeds.
\<close>

definition feature_keys :: "('f \<Rightarrow> (string \<times> json) list) \<Rightarrow> 'f list \<Rightarrow> string list" where
  "feature_keys props features = (case features of [] \<Rightarrow> [] | f # _ \<Rightarrow> map fst (props f))"

definition detail_renders :: "string list \<Rightarrow> geojson_detail \<Rightarrow> bool" where
  "detail_renders keys d = list_all (\<lambda>field. field \<in> set keys) (detail_fields d)"

fun layer_renders :: "('f \<Rightarrow> (string \<times> json) list) \<Rightarrow> 'f layer \<Rightarrow> bool" where
  "layer_renders props (GeoJson g) =
     (detail_renders (feature_keys props (geojson_data g)) (geojson_tooltip g)
      \<and> detail_renders (feature_keys props (geojson_data g)) (geojson_popup g))"
| "layer_renders props _ = True"

definition repr_html ::
  "('f \<Rightarrow> (string \<times> json) list) \<Rightarrow> 'f folium_map \<Rightarrow> error + 'f folium_map" where
  "repr_html props m =
     (if list_all (layer_renders props) (children m) then Inr m else Inl AssertionError)"

subsection \<open>\<^verbatim>\<open>sameinad.py\<close>: the dashboard's \<^verbatim>\<open>map\<close>\<close>

text \<open>
  Lines 250-254. \<^verbatim>\<open>if selected_kingdoms:\<close> is the test that the selection is not empty;
  the \<^verbatim>\<open>else\<close> branch rebinds \<^verbatim>\<open>selected_kingdoms\<close>, which nothing reads afterwards.
\<close>

definition filter_kingdoms ::
  "string list \<Rightarrow> ('g, 'm) atlas_row_scheme list \<Rightarrow> ('g, 'm) atlas_row_scheme list" where
  "filter_kingdoms selected_kingdoms kingdom_gdf =
     (if selected_kingdoms \<noteq> []
      then filter (\<lambda>k. name k \<in> set selected_kingdoms) kingdom_gdf
      else kingdom_gdf)"

text \<open>
  Lines 256-262. With no row, the scalar \<^verbatim>\<open>'gray'\<close> is broadcast over the (empty) column.
\<close>

definition kingdom_colors_sameinad :: "'c matplotlib \<Rightarrow> nat \<Rightarrow> string list" where
  "kingdom_colors_sameinad mpl n =
     (if n > 0
      then map (\<lambda>i. rgb2hex mpl (get_cmap mpl ''rainbow'' n (of_nat i / of_nat n))) [0..<n]
      else replicate n ''gray'')"

text \<open>Lines 264-268: \<^verbatim>\<open>center\<close>, a (lon, lat) pair.\<close>

definition map_center_sameinad ::
  "'g shapely \<Rightarrow> ('g, 'k) atlas_row_scheme list \<Rightarrow> ('g, 'l) atlas_row_scheme list
     \<Rightarrow> error + rat \<times> rat" where
  "map_center_sameinad sh kingdom_gdf location_gdf =
     (if kingdom_gdf \<noteq> []
      then first_coord (coords sh (centroid sh (unary_union sh (map geometry kingdom_gdf))))
      else first_coord (coords sh (centroid sh (unary_union sh (map geometry location_gdf)))))"

text \<open>Lines 287-307: the polygon layer.\<close>

definition style_function_sameinad :: "'g kingdom_colored \<Rightarrow> style" where
  "style_function_sameinad feature =
     \<lparr>fillColor = color feature, stroke_color = ''black'', weight = 2,
      fillOpacity = 1 / 2, opacity = 1\<rparr>"

definition kingdoms_layer_sameinad :: "'g kingdom_colored list \<Rightarrow> 'g kingdom_colored layer" where
  "kingdoms_layer_sameinad kingdom_gdf =
     GeoJson
       \<lparr>geojson_data = kingdom_gdf,
        geojson_name = ''Kingdoms'',
        style_function = style_function_sameinad,
        geojson_tooltip =
          \<lparr>detail_fields = [''name'', ''claimedby''],
           detail_aliases = [''Name:'', ''Claimed By:''],
           detail_labels = True, detail_max_width = None\<rparr>,
        geojson_popup =
          \<lparr>detail_fields = [''name'', ''claimedby'', ''summary''],
           detail_aliases = [''Name:'', ''Claimed By:'', ''Summary:''],
           detail_labels = True, detail_max_width = Some 300\<rparr>\<rparr>"

text \<open>Lines 309-324: the two lookup tables.\<close>

definition color_mapping :: "(string \<times> string) list" where
  "color_mapping =
     [(''Castle'', ''red''), (''City'', ''blue''), (''Fortress'', ''green''), (''Keep'', ''orange'')]"

definition icon_mapping :: "(string \<times> string) list" where
  "icon_mapping =
     [(''Castle'', ''shield-alt''), (''City'', ''building''), (''Fortress'', ''archway''),
      (''Keep'', ''home'')]"

text \<open>
  Lines 329-353, the body of the loop over \<^verbatim>\<open>location_gdf.iterrows()\<close>. The \<^verbatim>\<open>try\<close>
  catches \<open>ValueError\<close> only, and its handler builds the marker again with the default
  icon.
\<close>

definition location_marker_sameinad ::
  "('g, 's, 'c) libraries \<Rightarrow> ('g, 'm) location_row_scheme \<Rightarrow> error + marker" where
  "location_marker_sameinad libs row =
     (let location_type = type row;
          marker_color = dict_get color_mapping location_type ''gray'';
          icon_name = dict_get icon_mapping location_type ''info-circle'';
          popup_content = popup_content_location row;
          icon = \<lparr>icon = icon_name, prefix = ''fa'', icon_color = ''white'',
                  marker_color = marker_color\<rparr>
      in case folium_Marker libs (geometry row) \<lparr>html = popup_content, max_width = 300\<rparr> icon of
           Inl ValueError \<Rightarrow>
             folium_Marker libs (geometry row) \<lparr>html = popup_content, max_width = 300\<rparr>
               \<lparr>icon = ''info-circle'', prefix = ''fa'', icon_color = ''white'',
                marker_color = ''gray''\<rparr>
         | Inl e \<Rightarrow> Inl e
         | Inr mk \<Rightarrow> Inr mk)"

text \<open>
  Lines 250-389, from the filter to the returned map: the last step renders the map
  (line 389).
\<close>

definition render_sameinad ::
  "('g, 's, 'c) libraries \<Rightarrow> string list \<Rightarrow> 'g location_row list \<Rightarrow> 'g kingdom_row list
     \<Rightarrow> 'g house_row list \<Rightarrow> error + 'g kingdom_colored folium_map" where
  "render_sameinad libs selected_kingdoms location_gdf kingdom_gdf0 houses_gdf =
     (let kingdom_gdf1 = filter_kingdoms selected_kingdoms kingdom_gdf0;
          n = length kingdom_gdf1;
          kingdom_gdf = set_color kingdom_gdf1 (kingdom_colors_sameinad (matplotlib libs) n)
      in case map_center_sameinad (shapely libs) kingdom_gdf location_gdf of
           Inl e \<Rightarrow> Inl e
         | Inr center \<Rightarrow>
             (case folium_Map (validate_location libs) (snd center, fst center) of
                Inl e \<Rightarrow> Inl e
              | Inr m0 \<Rightarrow>
                  (let m1 = add_to (TileLayer carto_tiles) m0;
                       m2 = add_to (kingdoms_layer_sameinad kingdom_gdf) m1
                   in case traverse (location_marker_sameinad libs) location_gdf of
                        Inl e \<Rightarrow> Inl e
                      | Inr markers \<Rightarrow>
                          (let m3 = add_to (MarkerCluster ''Locations'' markers) m2
                           in case houses_layer libs houses_gdf of
                                Inl e \<Rightarrow> Inl e
                              | Inr circles \<Rightarrow>
                                  (let m4 = add_to (FeatureGroup ''Houses'' circles) m3;
                                       m = add_to LayerControl m4
                                   in repr_html properties_sameinad m)))))"

text \<open>
  Lines 213-389, from the three data frames: the geometries are parsed (locations, then
  kingdoms, then settlements), the populations drawn, and the map rendered. The second
  component is the generator's state when the function ends.
\<close>

definition map_sameinad ::
  "('g, 's, 'c) libraries \<Rightarrow> 's \<Rightarrow> string list \<Rightarrow> unit location_row list
     \<Rightarrow> unit kingdom_row list \<Rightarrow> unit location_row list
     \<Rightarrow> (error + 'g kingdom_colored folium_map) \<times> 's" where
  "map_sameinad libs st selected_kingdoms location_df kingdom_df houses_df =
     (case load_geometry (shapely libs) location_df of
        Inl e \<Rightarrow> (Inl e, st)
      | Inr location_gdf \<Rightarrow>
          (case load_geometry (shapely libs) kingdom_df of
             Inl e \<Rightarrow> (Inl e, st)
           | Inr kingdom_gdf \<Rightarrow>
               (case load_geometry (shapely libs) houses_df of
                  Inl e \<Rightarrow> (Inl e, st)
                | Inr houses_gdf0 \<Rightarrow>
                    (case assign_population (np_random libs) st houses_gdf0 of
                       (Inl e, st') \<Rightarrow> (Inl e, st')
                     | (Inr houses_gdf, st') \<Rightarrow>
                         (render_sameinad libs selected_kingdoms location_gdf kingdom_gdf
                            houses_gdf, st')))))"

subsection \<open>\<^verbatim>\<open>map.py\<close>: the standalone \<^verbatim>\<open>map\<close>\<close>

text \<open>Lines 76-79: no guard on \<open>n\<close>; the comprehension over \<^verbatim>\<open>range(0)\<close> is empty.\<close>

definition kingdom_colors_map_py :: "'c matplotlib \<Rightarrow> nat \<Rightarrow> string list" where
  "kingdom_colors_map_py mpl n =
     map (\<lambda>i. rgb2hex mpl (get_cmap mpl ''rainbow'' n (of_nat i / of_nat n))) [0..<n]"

text \<open>
  Lines 81-85: \<^verbatim>\<open>center\<close> is the centroid of the locations, whatever the kingdoms are,
  and the map's location is \<^verbatim>\<open>[center.y, center.x]\<close>.
\<close>

definition map_center_map_py ::
  "'g shapely \<Rightarrow> ('g, 'l) atlas_row_scheme list \<Rightarrow> error + rat \<times> rat" where
  "map_center_map_py sh location_gdf =
     (let center = centroid sh (unary_union sh (map geometry location_gdf))
      in case point_y sh center of
           Inl e \<Rightarrow> Inl e
         | Inr y \<Rightarrow> (case point_x sh center of Inl e \<Rightarrow> Inl e | Inr x \<Rightarrow> Inr (y, x)))"

text \<open>Lines 97-105.\<close>

definition type_icon_mapping :: "(string \<times> string) list" where
  "type_icon_mapping =
     [(''Castle'', ''fa-fort-awesome''), (''City'', ''fa-building''),
      (''Landmark'', ''fa-map-pin''), (''Region'', ''fa-globe''),
      (''Ruin'', ''fa-university''), (''Town'', ''fa-home'')]"

text \<open>Lines 110-125, the body of the loop over \<^verbatim>\<open>location_gdf.iterrows()\<close>.\<close>

definition location_marker_map_py ::
  "('g, 's, 'c) libraries \<Rightarrow> ('g, 'm) location_row_scheme \<Rightarrow> error + marker" where
  "location_marker_map_py libs row =
     (let popup_content = popup_content_location row;
          location_type = type row;
          icon_name = dict_get type_icon_mapping location_type ''fa-info-circle'';
          icon = \<lparr>icon = icon_name, prefix = ''fa'', icon_color = ''white'',
                  marker_color = ''blue''\<rparr>
      in folium_Marker libs (geometry row) \<lparr>html = popup_content, max_width = 300\<rparr> icon)"

text \<open>Lines 127-158: the style function, the tooltip and popup columns, the polygon layer.\<close>

definition style_function_map_py :: "'g kingdom_feature \<Rightarrow> style" where
  "style_function_map_py feature =
     \<lparr>fillColor = color feature, stroke_color = ''black'', weight = 2,
      fillOpacity = 1 / 2, opacity = 1\<rparr>"

definition kingdom_tooltip :: "('g, 'm) kingdom_row_scheme \<Rightarrow> string" where
  "kingdom_tooltip row =
     ''<b>Name:</b> '' @ name row @ ''<br><b>Claimed By:</b> '' @ claimedby row"

definition kingdom_popup :: "('g, 'm) kingdom_row_scheme \<Rightarrow> string" where
  "kingdom_popup row =
     line_start @ ''<b>Name:</b> '' @ name row @ ''<br>''
     @ line_start @ ''<b>Claimed By:</b> '' @ claimedby row @ ''<br>''
     @ line_start @ ''<b>Summary:</b> '' @ summary_or_placeholder (summary row)
     @ line_start"

definition set_tooltip_popup :: "'g kingdom_colored \<Rightarrow> 'g kingdom_feature" where
  "set_tooltip_popup row =
     kingdom_colored.extend row
       (kingdom_feature.fields (kingdom_tooltip row) (kingdom_popup row))"

definition kingdoms_layer_map_py :: "'g kingdom_feature list \<Rightarrow> 'g kingdom_feature layer" where
  "kingdoms_layer_map_py kingdom_gdf =
     GeoJson
       \<lparr>geojson_data = kingdom_gdf,
        geojson_name = ''Kingdoms'',
        style_function = style_function_map_py,
        geojson_tooltip =
          \<lparr>detail_fields = [''tooltip''], detail_aliases = [[]],
           detail_labels = False, detail_max_width = None\<rparr>,
        geojson_popup =
          \<lparr>detail_fields = [''popup''], detail_aliases = [''popup''],
           detail_labels = False, detail_max_width = Some 300\<rparr>\<rparr>"

text \<open>
  Lines 76-193, after the populations are drawn: the last step renders the map
  (line 193).
\<close>

definition render_map_py ::
  "('g, 's, 'c) libraries \<Rightarrow> 'g location_row list \<Rightarrow> 'g kingdom_row list
     \<Rightarrow> 'g house_row list \<Rightarrow> error + 'g kingdom_feature folium_map" where
  "render_map_py libs location_gdf kingdom_gdf0 houses_gdf =
     (let n = length kingdom_gdf0;
          kingdom_gdf1 = set_color kingdom_gdf0 (kingdom_colors_map_py (matplotlib libs) n)
      in case map_center_map_py (shapely libs) location_gdf of
           Inl e \<Rightarrow> Inl e
         | Inr loc \<Rightarrow>
             (case folium_Map (validate_location libs) loc of
                Inl e \<Rightarrow> Inl e
              | Inr m0 \<Rightarrow>
                  (let m1 = add_to (TileLayer carto_tiles) m0
                   in case traverse (location_marker_map_py libs) location_gdf of
                        Inl e \<Rightarrow> Inl e
                      | Inr markers \<Rightarrow>
                          (let m2 = add_to (MarkerCluster ''Locations'' markers) m1;
                               kingdom_gdf = map set_tooltip_popup kingdom_gdf1;
                               m3 = add_to (kingdoms_layer_map_py kingdom_gdf) m2
                           in case houses_layer libs houses_gdf of
                                Inl e \<Rightarrow> Inl e
                              | Inr circles \<Rightarrow>
                                  (let m4 = add_to (FeatureGroup ''Houses'' circles) m3;
                                       m = add_to LayerControl m4
                                   in repr_html properties_map_py m)))))"

text \<open>Lines 34-193, from the three data frames.\<close>

definition map_map_py ::
  "('g, 's, 'c) libraries \<Rightarrow> 's \<Rightarrow> unit location_row list
     \<Rightarrow> unit kingdom_row list \<Rightarrow> unit location_row list
     \<Rightarrow> (error + 'g kingdom_feature folium_map) \<times> 's" where
  "map_map_py libs st location_df kingdom_df houses_df =
     (case load_geometry (shapely libs) location_df of
        Inl e \<Rightarrow> (Inl e, st)
      | Inr location_gdf \<Rightarrow>
          (case load_geometry (shapely libs) kingdom_df of
             Inl e \<Rightarrow> (Inl e, st)
           | Inr kingdom_gdf \<Rightarrow>
               (case load_geometry (shapely libs) houses_df of
                  Inl e \<Rightarrow> (Inl e, st)
                | Inr houses_gdf0 \<Rightarrow>
                    (case assign_population (np_random libs) st houses_gdf0 of
                       (Inl e, st') \<Rightarrow> (Inl e, st')
                     | (Inr houses_gdf, st') \<Rightarrow>
                         (render_map_py libs location_gdf kingdom_gdf houses_gdf, st')))))"

subsection \<open>Documented behaviour of the libraries\<close>


subsection \<open>A concrete instance of the libraries and of the result sets\<close>

text \<open>
  For evaluating the model on concrete inputs: geometries are lists of vertices, the
  union of a column joins them, the centroid is the mean of the vertices (as it is for a
  set of points and for a rectangle), and only a single point has \<open>x\<close> and \<open>y\<close>.
\<close>

definition example_wkt :: "(string \<times> (rat \<times> rat) list) list" where
  "example_wkt =
     [(''POINT (1 2)'', [(1, 2)]),
      (''POINT (3 6)'', [(3, 6)]),
      (''POLYGON ((10 10, 14 10, 14 12, 10 12, 10 10))'', [(10, 10), (14, 10), (14, 12), (10, 12)]),
      (''POLYGON ((20 0, 22 0, 22 4, 20 4, 20 0))'', [(20, 0), (22, 0), (22, 4), (20, 4)])]"

definition example_centroid :: "(rat \<times> rat) list \<Rightarrow> (rat \<times> rat) list" where
  "example_centroid g =
     (if g = [] then []
      else [(sum_list (map fst g) / of_nat (length g), sum_list (map snd g) / of_nat (length g))])"

definition example_shapely :: "(rat \<times> rat) list shapely" where
  "example_shapely =
     \<lparr>wkt_loads = (\<lambda>s. case map_of example_wkt s of None \<Rightarrow> Inl WKTReadingError | Some g \<Rightarrow> Inr g),
      unary_union = concat,
      centroid = example_centroid,
      coords = (\<lambda>g. g),
      point_x = (\<lambda>g. case g of [p] \<Rightarrow> Inr (fst p) | _ \<Rightarrow> Inl AttributeError),
      point_y = (\<lambda>g. case g of [p] \<Rightarrow> Inr (snd p) | _ \<Rightarrow> Inl AttributeError)\<rparr>"

text \<open>A generator whose state is a counter.\<close>

definition example_np_random :: "nat np_random" where
  "example_np_random =
     \<lparr>seed = (\<lambda>k. nat k),
      randint = (\<lambda>st lo hi n.
        (map (\<lambda>i. lo + (int st * 37 + int i * 1009) mod (hi - lo)) [0..<n], st + n))\<rparr>"

text \<open>A colormap of \<open>n\<close> entries, indexed by \<open>\<lfloor>x \<cdot> n\<rfloor>\<close>, over a table of five colours.\<close>

definition example_matplotlib :: "nat matplotlib" where
  "example_matplotlib =
     \<lparr>get_cmap = (\<lambda>nm n x. nat \<lfloor>x * of_nat n\<rfloor>),
      rgb2hex = (\<lambda>i. [''#8000ff'', ''#00b5eb'', ''#80ffb4'', ''#ffb360'', ''#ff0000''] ! min i 4)\<rparr>"

definition example_libs :: "((rat \<times> rat) list, nat, nat) libraries" where
  "example_libs =
     \<lparr>shapely = example_shapely, np_random = example_np_random,
      matplotlib = example_matplotlib, validate_location = (\<lambda>_. True)\<rparr>"

definition example_locations :: "unit location_row list" where
  "example_locations =
     [\<lparr>gid = 1, name = ''Winterfell'', summary = Some ''Seat of House Stark.'',
       geom_wkt = ''POINT (1 2)'', geometry = (), type = ''Castle''\<rparr>,
      \<lparr>gid = 2, name = ''Oldtown'', summary = None,
       geom_wkt = ''POINT (3 6)'', geometry = (), type = ''Harbour''\<rparr>]"

definition example_houses :: "unit location_row list" where
  "example_houses =
     [\<lparr>gid = 1, name = ''Winterfell'', summary = Some ''Seat of House Stark.'',
       geom_wkt = ''POINT (1 2)'', geometry = (), type = ''Castle''\<rparr>,
      \<lparr>gid = 3, name = ''Lannisport'', summary = Some [],
       geom_wkt = ''POINT (3 6)'', geometry = (), type = ''City''\<rparr>]"

definition example_kingdoms :: "unit kingdom_row list" where
  "example_kingdoms =
     [\<lparr>gid = 1, name = ''The North'', summary = None,
       geom_wkt = ''POLYGON ((10 10, 14 10, 14 12, 10 12, 10 10))'', geometry = (),
       claimedby = ''Stark''\<rparr>,
      \<lparr>gid = 2, name = ''Dorne'', summary = Some ''The southernmost kingdom.'',
       geom_wkt = ''POLYGON ((20 0, 22 0, 22 4, 20 4, 20 0))'', geometry = (),
       claimedby = ''Martell''\<rparr>]"

definition example_settlements :: "(rat \<times> rat) list house_row list" where
  "example_settlements =
     [\<lparr>gid = 1, name = ''Winterfell'', summary = Some ''Seat of House Stark.'',
       geom_wkt = ''POINT (1 2)'', geometry = [(1, 2)], type = ''Castle'', population = 100\<rparr>,
      \<lparr>gid = 3, name = ''Lannisport'', summary = Some [],
       geom_wkt = ''POINT (3 6)'', geometry = [(3, 6)], type = ''City'', population = 5000\<rparr>]"

text \<open>The name folium shows for a child in the layer control.\<close>

fun layer_name :: "'f layer \<Rightarrow> string" where
  "layer_name (TileLayer t) = tile_name t"
| "layer_name (GeoJson g) = geojson_name g"
| "layer_name (MarkerCluster n _) = n"
| "layer_name (FeatureGroup n _) = n"
| "layer_name LayerControl = []"

text \<open>The rows a polygon layer's popups show, one list per feature.\<close>

fun layer_polygon_popups ::
  "('f \<Rightarrow> (string \<times> json) list) \<Rightarrow> 'f layer \<Rightarrow> (string \<times> json option) list list" where
  "layer_polygon_popups props (GeoJson g) =
     map (\<lambda>f. detail_values (geojson_popup g) (props f)) (geojson_data g)"
| "layer_polygon_popups props _ = []"

text \<open>The two example frames after their geometries are parsed.\<close>

definition example_location_gdf :: "(rat \<times> rat) list location_row list" where
  "example_location_gdf =
     [\<lparr>gid = 1, name = ''Winterfell'', summary = Some ''Seat of House Stark.'',
       geom_wkt = ''POINT (1 2)'', geometry = [(1, 2)], type = ''Castle''\<rparr>,
      \<lparr>gid = 2, name = ''Oldtown'', summary = None,
       geom_wkt = ''POINT (3 6)'', geometry = [(3, 6)], type = ''Harbour''\<rparr>]"

definition example_kingdom_gdf :: "(rat \<times> rat) list kingdom_row list" where
  "example_kingdom_gdf =
     [\<lparr>gid = 1, name = ''The North'', summary = None,
       geom_wkt = ''POLYGON ((10 10, 14 10, 14 12, 10 12, 10 10))'',
       geometry = [(10, 10), (14, 10), (14, 12), (10, 12)], claimedby = ''Stark''\<rparr>,
      \<lparr>gid = 2, name = ''Dorne'', summary = Some ''The southernmost kingdom.'',
       geom_wkt = ''POLYGON ((20 0, 22 0, 22 4, 20 4, 20 0))'',
       geometry = [(20, 0), (22, 0), (22, 4), (20, 4)], claimedby = ''Martell''\<rparr>]"

section \<open>Properties\<close>

subsection \<open>Loops and columns\<close>

lemma traverse_length: "traverse f xs = Inr ys \<Longrightarrow> length ys = length xs"
  by (induction xs arbitrary: ys) (auto split: sum.splits)

lemma traverse_nth: "traverse f xs = Inr ys \<Longrightarrow> i < length xs \<Longrightarrow> f (xs ! i) = Inr (ys ! i)"
proof (induction xs arbitrary: ys i)
  case Nil
  then show ?case by simp
next
  case (Cons x xs)
  then show ?case by (cases i) (auto split: sum.splits)
qed

lemma fold_min_Min: "fold min ys (x::int) = Min (set (x # ys))"
proof (induction ys arbitrary: x)
  case Nil
  then show ?case by simp
next
  case (Cons y ys)
  have "fold min (y # ys) x = Min (set (min y x # ys))" using Cons.IH by simp
  also have "\<dots> = Min (set (x # y # ys))"
    by (cases "ys = []") (auto simp: min.commute min.left_commute min.assoc)
  finally show ?case .
qed

lemma fold_max_Max: "fold max ys (x::int) = Max (set (x # ys))"
proof (induction ys arbitrary: x)
  case Nil
  then show ?case by simp
next
  case (Cons y ys)
  have "fold max (y # ys) x = Max (set (max y x # ys))" using Cons.IH by simp
  also have "\<dots> = Max (set (x # y # ys))"
    by (cases "ys = []") (auto simp: max.commute max.left_commute max.assoc)
  finally show ?case .
qed

lemma series_min_Min: "xs \<noteq> [] \<Longrightarrow> series_min xs = Some (Min (set xs))"
  by (cases xs) (simp_all add: series_min_def fold_min_Min del: set_simps)

lemma series_max_Max: "xs \<noteq> [] \<Longrightarrow> series_max xs = Some (Max (set xs))"
  by (cases xs) (simp_all add: series_max_def fold_max_Max del: set_simps)

subsection \<open>The radius of a settlement's circle\<close>

lemma folium_CircleMarker_radius: "folium_CircleMarker libs g r pop = Inr c \<Longrightarrow> radius c = r"
  by (auto simp: folium_CircleMarker_def split: sum.splits if_splits)

lemma house_circle_radius:
  "house_circle libs lo hi row = Inr c \<Longrightarrow> radius c = get_radius lo hi (population row)"
  by (auto simp: house_circle_def Let_def dest: folium_CircleMarker_radius)

lemma houses_layer_length: "houses_layer libs houses_gdf = Inr circles \<Longrightarrow> length circles = length houses_gdf"
  by (auto simp: houses_layer_def Let_def dest: traverse_length)

lemma houses_layer_radius:
  assumes "houses_gdf \<noteq> []" and "houses_layer libs houses_gdf = Inr circles"
    and "i < length houses_gdf"
  shows "radius (circles ! i) =
    get_radius (Some (Min (set (map population houses_gdf))))
      (Some (Max (set (map population houses_gdf)))) (population (houses_gdf ! i))"
proof -
  have ne: "map population houses_gdf \<noteq> []" using assms(1) by simp
  have tr: "traverse (house_circle libs (Some (Min (set (map population houses_gdf))))
      (Some (Max (set (map population houses_gdf))))) houses_gdf = Inr circles"
    using assms(2) unfolding houses_layer_def Let_def series_min_Min[OF ne] series_max_Max[OF ne] .
  from traverse_nth[OF tr assms(3)] show ?thesis by (rule house_circle_radius)
qed

text \<open>
  C3. In a settlement layer that was built from a non-empty set, the circle of the
  settlement at position \<open>i\<close>, of population \<open>p\<close>, has radius
  \<open>5 + 10 \<cdot> (p - min) / (max - min)\<close> when the largest population exceeds the smallest,
  and radius 10 when all populations are equal; the smallest population then maps to
  radius 5 and the largest to radius 15. (Exact arithmetic: the rounding of the floats
  is not modelled.)
\<close>

theorem radius_of_population:
  assumes "houses_gdf \<noteq> []" and "houses_layer libs houses_gdf = Inr circles"
    and "i < length houses_gdf"
  shows "let pops = map population houses_gdf;
             lo = Min (set pops); hi = Max (set pops);
             p = population (houses_gdf ! i);
             r = radius (circles ! i)
         in length circles = length houses_gdf
            \<and> (lo < hi \<longrightarrow> r = 5 + 10 * (of_int (p - lo) / of_int (hi - lo)))
            \<and> ((\<forall>q \<in> set pops. q = p) \<longrightarrow> r = 10)
            \<and> (lo < hi \<and> p = lo \<longrightarrow> r = 5)
            \<and> (lo < hi \<and> p = hi \<longrightarrow> r = 15)"
proof -
  let ?pops = "map population houses_gdf"
  let ?lo = "Min (set ?pops)" and ?hi = "Max (set ?pops)"
  let ?p = "population (houses_gdf ! i)"
  have r: "radius (circles ! i) = get_radius (Some ?lo) (Some ?hi) ?p"
    using houses_layer_radius[OF assms] .
  have len: "length circles = length houses_gdf"
    using assms(2) by (rule houses_layer_length)
  have mem: "?p \<in> set ?pops" using assms(3) by simp
  have eq: "?lo = ?hi" if "\<forall>q \<in> set ?pops. q = ?p"
  proof -
    have "set ?pops = {?p}" using that mem by auto
    then show ?thesis by simp
  qed
  have a: "?lo < ?hi \<Longrightarrow> radius (circles ! i) = 5 + 10 * (of_int (?p - ?lo) / of_int (?hi - ?lo))"
    by (simp add: r get_radius_def)
  have b: "(\<forall>q \<in> set ?pops. q = ?p) \<Longrightarrow> radius (circles ! i) = 10"
    using eq by (simp add: r get_radius_def)
  have c: "?lo < ?hi \<and> ?p = ?lo \<Longrightarrow> radius (circles ! i) = 5"
    by (simp add: r get_radius_def)
  have d: "?lo < ?hi \<and> ?p = ?hi \<Longrightarrow> radius (circles ! i) = 15"
    by (simp add: r get_radius_def)
  show ?thesis unfolding Let_def using len a b c d by blast
qed

lemma example_settlements_layer:
  "houses_layer example_libs example_settlements =
     Inr [\<lparr>circle_location = (2, 1), radius = 5, circle_color = ''blue'', fill = True,
            fill_color = ''blue'', fill_opacity = 3 / 5,
            circle_popup = \<lparr>html = popup_content_house (example_settlements ! 0), max_width = 300\<rparr>\<rparr>,
          \<lparr>circle_location = (6, 3), radius = 15, circle_color = ''blue'', fill = True,
            fill_color = ''blue'', fill_opacity = 3 / 5,
            circle_popup = \<lparr>html = popup_content_house (example_settlements ! 1), max_width = 300\<rparr>\<rparr>]"
  by (simp add: houses_layer_def example_settlements_def house_circle_def folium_CircleMarker_def
      example_libs_def example_shapely_def series_min_def series_max_def get_radius_def Let_def)

theorem radius_of_population_witness:
  "example_settlements \<noteq> []
   \<and> (\<exists>circles. houses_layer example_libs example_settlements = Inr circles
        \<and> radius (circles ! 0) = 5 \<and> radius (circles ! 1) = 15)"
proof -
  have ne: "example_settlements \<noteq> []" by (simp add: example_settlements_def)
  have l0: "0 < length example_settlements" and l1: "1 < length example_settlements"
    by (simp_all add: example_settlements_def)
  note t0 = radius_of_population[OF ne example_settlements_layer l0]
  note t1 = radius_of_population[OF ne example_settlements_layer l1]
  show ?thesis using ne t0 t1 example_settlements_layer
    by (simp add: Let_def example_settlements_def)
qed

subsection \<open>The shape of a build that succeeds\<close>

lemma set_color_length: "length cs = length ks \<Longrightarrow> length (set_color ks cs) = length ks"
  by (simp add: set_color_def)

lemma kingdom_colors_sameinad_length: "length (kingdom_colors_sameinad mpl n) = n"
  by (simp add: kingdom_colors_sameinad_def)

lemma kingdom_colors_map_py_length: "length (kingdom_colors_map_py mpl n) = n"
  by (simp add: kingdom_colors_map_py_def)

lemma set_color_geometry:
  "length cs = length ks \<Longrightarrow> map geometry (set_color ks cs) = map geometry ks"
  by (auto simp: set_color_def kingdom_row.extend_def intro: nth_equalityI)

lemma set_color_Nil_iff: "length cs = length ks \<Longrightarrow> set_color ks cs = [] \<longleftrightarrow> ks = []"
  by (cases ks; cases cs) (simp_all add: set_color_def)

lemma map_sameinad_Inr:
  assumes "fst (map_sameinad libs st sel location_df kingdom_df houses_df) = Inr m"
  obtains location_gdf kingdom_gdf houses_gdf0 houses_gdf st' where
    "load_geometry (shapely libs) location_df = Inr location_gdf"
    "load_geometry (shapely libs) kingdom_df = Inr kingdom_gdf"
    "load_geometry (shapely libs) houses_df = Inr houses_gdf0"
    "assign_population (np_random libs) st houses_gdf0 = (Inr houses_gdf, st')"
    "render_sameinad libs sel location_gdf kingdom_gdf houses_gdf = Inr m"
  using assms unfolding map_sameinad_def
  by (auto split: sum.splits prod.splits)

lemma map_map_py_Inr:
  assumes "fst (map_map_py libs st location_df kingdom_df houses_df) = Inr m"
  obtains location_gdf kingdom_gdf houses_gdf0 houses_gdf st' where
    "load_geometry (shapely libs) location_df = Inr location_gdf"
    "load_geometry (shapely libs) kingdom_df = Inr kingdom_gdf"
    "load_geometry (shapely libs) houses_df = Inr houses_gdf0"
    "assign_population (np_random libs) st houses_gdf0 = (Inr houses_gdf, st')"
    "render_map_py libs location_gdf kingdom_gdf houses_gdf = Inr m"
  using assms unfolding map_map_py_def
  by (auto split: sum.splits prod.splits)

lemma repr_html_sameinad:
  "repr_html properties_sameinad
     \<lparr>location = loc, zoom_start = z, map_tiles = t,
      children = [TileLayer tile, kingdoms_layer_sameinad feats, MarkerCluster n mk,
                  FeatureGroup n' cs, LayerControl]\<rparr>
   = (if feats = [] then Inl AssertionError
      else Inr \<lparr>location = loc, zoom_start = z, map_tiles = t,
                children = [TileLayer tile, kingdoms_layer_sameinad feats, MarkerCluster n mk,
                            FeatureGroup n' cs, LayerControl]\<rparr>)"
  by (cases feats)
    (simp_all add: repr_html_def kingdoms_layer_sameinad_def feature_keys_def
      detail_renders_def properties_sameinad_def)

lemma repr_html_map_py:
  "repr_html properties_map_py
     \<lparr>location = loc, zoom_start = z, map_tiles = t,
      children = [TileLayer tile, MarkerCluster n mk, kingdoms_layer_map_py feats,
                  FeatureGroup n' cs, LayerControl]\<rparr>
   = (if feats = [] then Inl AssertionError
      else Inr \<lparr>location = loc, zoom_start = z, map_tiles = t,
                children = [TileLayer tile, MarkerCluster n mk, kingdoms_layer_map_py feats,
                            FeatureGroup n' cs, LayerControl]\<rparr>)"
  by (cases feats)
    (simp_all add: repr_html_def kingdoms_layer_map_py_def feature_keys_def
      detail_renders_def properties_map_py_def)

lemma render_sameinad_Inr:
  assumes "render_sameinad libs sel location_gdf kingdom_gdf0 houses_gdf = Inr m"
  obtains center markers circles where
    "map_center_sameinad (shapely libs)
       (set_color (filter_kingdoms sel kingdom_gdf0)
          (kingdom_colors_sameinad (matplotlib libs) (length (filter_kingdoms sel kingdom_gdf0))))
       location_gdf = Inr center"
    "validate_location libs (snd center, fst center)"
    "traverse (location_marker_sameinad libs) location_gdf = Inr markers"
    "houses_layer libs houses_gdf = Inr circles"
    "m = \<lparr>location = (snd center, fst center), zoom_start = 5, map_tiles = None,
          children =
            [TileLayer carto_tiles,
             kingdoms_layer_sameinad
               (set_color (filter_kingdoms sel kingdom_gdf0)
                  (kingdom_colors_sameinad (matplotlib libs)
                     (length (filter_kingdoms sel kingdom_gdf0)))),
             MarkerCluster ''Locations'' markers,
             FeatureGroup ''Houses'' circles,
             LayerControl]\<rparr>"
    "filter_kingdoms sel kingdom_gdf0 \<noteq> []"
  using assms unfolding render_sameinad_def Let_def folium_Map_def add_to_def
  by (auto simp: repr_html_sameinad set_color_Nil_iff kingdom_colors_sameinad_length
      split: sum.splits if_splits)

lemma render_map_py_Inr:
  assumes "render_map_py libs location_gdf kingdom_gdf0 houses_gdf = Inr m"
  obtains loc markers circles where
    "map_center_map_py (shapely libs) location_gdf = Inr loc"
    "validate_location libs loc"
    "traverse (location_marker_map_py libs) location_gdf = Inr markers"
    "houses_layer libs houses_gdf = Inr circles"
    "m = \<lparr>location = loc, zoom_start = 5, map_tiles = None,
          children =
            [TileLayer carto_tiles,
             MarkerCluster ''Locations'' markers,
             kingdoms_layer_map_py
               (map set_tooltip_popup
                  (set_color kingdom_gdf0
                     (kingdom_colors_map_py (matplotlib libs) (length kingdom_gdf0)))),
             FeatureGroup ''Houses'' circles,
             LayerControl]\<rparr>"
    "kingdom_gdf0 \<noteq> []"
  using assms unfolding render_map_py_def Let_def folium_Map_def add_to_def
  by (auto simp: repr_html_map_py set_color_Nil_iff kingdom_colors_map_py_length
      split: sum.splits if_splits)

subsection \<open>Layers\<close>

lemma load_geometry_length: "load_geometry sh df = Inr gdf \<Longrightarrow> length gdf = length df"
  unfolding load_geometry_def by (rule traverse_length)

lemma assign_population_state_free:
  "assign_population np st1 hs = assign_population np st2 hs"
  by (simp add: assign_population_def)

lemma assign_population_length:
  "assign_population np st hs = (Inr hs', st') \<Longrightarrow> length hs' = length hs"
  by (auto simp: assign_population_def Let_def split: prod.splits if_splits)

text \<open>
  C9 (as amended). In a build of \<^verbatim>\<open>sameinad.py\<close> that succeeds, the children of the map
  are, in the order they were added: the tile layer, the kingdom polygons, the location
  marker cluster, the settlement circles, the layer control. In a build of \<^verbatim>\<open>map.py\<close>
  the marker cluster is added before the kingdom polygons.
\<close>

theorem layers_order:
  "(fst (map_sameinad libs st sel location_df kingdom_df houses_df) = Inr m \<longrightarrow>
      map (\<lambda>l. (layer_class l, layer_name l)) (children m) =
        [(''TileLayer'', ''CartoDB''), (''GeoJson'', ''Kingdoms''),
         (''MarkerCluster'', ''Locations''), (''FeatureGroup'', ''Houses''),
         (''LayerControl'', [])])
   \<and> (fst (map_map_py libs' st' location_df' kingdom_df' houses_df') = Inr m' \<longrightarrow>
      map (\<lambda>l. (layer_class l, layer_name l)) (children m') =
        [(''TileLayer'', ''CartoDB''), (''MarkerCluster'', ''Locations''),
         (''GeoJson'', ''Kingdoms''), (''FeatureGroup'', ''Houses''),
         (''LayerControl'', [])])"
proof (intro conjI impI)
  assume "fst (map_sameinad libs st sel location_df kingdom_df houses_df) = Inr m"
  then obtain lg kg hg where "render_sameinad libs sel lg kg hg = Inr m"
    by (rule map_sameinad_Inr)
  then show "map (\<lambda>l. (layer_class l, layer_name l)) (children m) =
        [(''TileLayer'', ''CartoDB''), (''GeoJson'', ''Kingdoms''),
         (''MarkerCluster'', ''Locations''), (''FeatureGroup'', ''Houses''),
         (''LayerControl'', [])]"
    by (elim render_sameinad_Inr) (simp add: kingdoms_layer_sameinad_def carto_tiles_def)
next
  assume "fst (map_map_py libs' st' location_df' kingdom_df' houses_df') = Inr m'"
  then obtain lg kg hg where "render_map_py libs' lg kg hg = Inr m'"
    by (rule map_map_py_Inr)
  then show "map (\<lambda>l. (layer_class l, layer_name l)) (children m') =
        [(''TileLayer'', ''CartoDB''), (''MarkerCluster'', ''Locations''),
         (''GeoJson'', ''Kingdoms''), (''FeatureGroup'', ''Houses''),
         (''LayerControl'', [])]"
    by (elim render_map_py_Inr) (simp add: kingdoms_layer_map_py_def carto_tiles_def)
qed

lemmas example_defs =
  example_libs_def example_shapely_def example_np_random_def example_matplotlib_def
  example_locations_def example_kingdoms_def example_houses_def example_wkt_def
  example_centroid_def

lemmas build_defs =
  map_sameinad_def map_map_py_def render_sameinad_def render_map_py_def load_geometry_def
  with_geometry_def assign_population_def filter_kingdoms_def kingdom_colors_sameinad_def
  kingdom_colors_map_py_def set_color_def map_center_sameinad_def map_center_map_py_def
  first_coord_def folium_Map_def add_to_def location_marker_sameinad_def
  location_marker_map_py_def folium_Marker_def houses_layer_def house_circle_def
  folium_CircleMarker_def series_min_def series_max_def get_radius_def dict_get_def
  color_mapping_def icon_mapping_def type_icon_mapping_def kingdoms_layer_sameinad_def
  kingdoms_layer_map_py_def set_tooltip_popup_def repr_html_def feature_keys_def
  detail_renders_def properties_sameinad_def properties_map_py_def json_of_summary_def
  location_row.extend_def house_row.fields_def kingdom_row.extend_def kingdom_colored.fields_def
  kingdom_colored.extend_def kingdom_feature.fields_def

lemma example_sameinad_builds:
  "\<exists>m. fst (map_sameinad example_libs (7::nat) [] example_locations example_kingdoms example_houses) = Inr m"
  by (simp add: example_defs build_defs Let_def upt_rec)

lemma example_map_py_builds:
  "\<exists>m. fst (map_map_py example_libs (7::nat) example_locations example_kingdoms example_houses) = Inr m"
  by (simp add: example_defs build_defs Let_def upt_rec)

lemma example_sameinad_filtered_builds:
  "\<exists>m. fst (map_sameinad example_libs (7::nat) [''Dorne''] example_locations example_kingdoms example_houses) = Inr m"
  by (simp add: example_defs build_defs Let_def upt_rec)

text \<open>
  The claim as stated, for every map build, fails on \<^verbatim>\<open>map.py\<close>: its second child is the
  marker cluster, its third the polygons.
\<close>

theorem layers_order_counterexample:
  "(case fst (map_map_py example_libs (7::nat) example_locations example_kingdoms example_houses) of
      Inl e \<Rightarrow> []
    | Inr m \<Rightarrow> map layer_class (children m)) =
   [''TileLayer'', ''MarkerCluster'', ''GeoJson'', ''FeatureGroup'', ''LayerControl'']"
  by (simp add: example_defs build_defs Let_def upt_rec)


theorem layers_order_witness:
  "(\<exists>m. fst (map_sameinad example_libs (7::nat) [''Dorne''] example_locations example_kingdoms
              example_houses) = Inr m
        \<and> map (\<lambda>l. (layer_class l, layer_name l)) (children m) =
            [(''TileLayer'', ''CartoDB''), (''GeoJson'', ''Kingdoms''),
             (''MarkerCluster'', ''Locations''), (''FeatureGroup'', ''Houses''),
             (''LayerControl'', [])])
   \<and> (\<exists>m'. fst (map_map_py example_libs (7::nat) example_locations example_kingdoms
               example_houses) = Inr m'
        \<and> map (\<lambda>l. (layer_class l, layer_name l)) (children m') =
            [(''TileLayer'', ''CartoDB''), (''MarkerCluster'', ''Locations''),
             (''GeoJson'', ''Kingdoms''), (''FeatureGroup'', ''Houses''),
             (''LayerControl'', [])])"
proof -
  obtain m where m: "fst (map_sameinad example_libs (7::nat) [''Dorne''] example_locations
      example_kingdoms example_houses) = Inr m"
    using example_sameinad_filtered_builds by blast
  obtain m' where m': "fst (map_map_py example_libs (7::nat) example_locations example_kingdoms
      example_houses) = Inr m'"
    using example_map_py_builds by blast
  show ?thesis
    using layers_order[of example_libs 7 "[''Dorne'']" example_locations example_kingdoms
        example_houses m example_libs 7 example_locations example_kingdoms example_houses m']
      m m'
    by auto
qed

text \<open>
  C10. Two successful builds of \<^verbatim>\<open>sameinad.py\<close> from the same result sets, with any two
  selections of kingdom names (and any two states of the generator on entry), have the
  same location marker cluster and the same settlement circle layer, with one marker
  per location row and one circle per settlement row of the unfiltered result sets.
\<close>

theorem filter_leaves_markers_and_circles:
  assumes "fst (map_sameinad libs st1 sel1 location_df kingdom_df houses_df) = Inr m1"
    and "fst (map_sameinad libs st2 sel2 location_df kingdom_df houses_df) = Inr m2"
  shows "\<exists>markers circles.
           children m1 ! 2 = MarkerCluster ''Locations'' markers
         \<and> children m2 ! 2 = MarkerCluster ''Locations'' markers
         \<and> length markers = length location_df
         \<and> children m1 ! 3 = FeatureGroup ''Houses'' circles
         \<and> children m2 ! 3 = FeatureGroup ''Houses'' circles
         \<and> length circles = length houses_df"
proof -
  from assms(1) obtain lg kg hg0 hg s1 where
    a: "load_geometry (shapely libs) location_df = Inr lg"
       "load_geometry (shapely libs) kingdom_df = Inr kg"
       "load_geometry (shapely libs) houses_df = Inr hg0"
       "assign_population (np_random libs) st1 hg0 = (Inr hg, s1)"
       "render_sameinad libs sel1 lg kg hg = Inr m1"
    by (rule map_sameinad_Inr)
  from assms(2) obtain lg' kg' hg0' hg' s2 where
    b: "load_geometry (shapely libs) location_df = Inr lg'"
       "load_geometry (shapely libs) kingdom_df = Inr kg'"
       "load_geometry (shapely libs) houses_df = Inr hg0'"
       "assign_population (np_random libs) st2 hg0' = (Inr hg', s2)"
       "render_sameinad libs sel2 lg' kg' hg' = Inr m2"
    by (rule map_sameinad_Inr)
  have same: "lg' = lg" "hg0' = hg0" using a b by simp_all
  have "assign_population (np_random libs) st2 hg0 = assign_population (np_random libs) st1 hg0"
    by (rule assign_population_state_free)
  then have hg: "hg' = hg" using a(4) b(4) same by simp
  from a(5) obtain c1 mk1 ci1 where
    r1: "traverse (location_marker_sameinad libs) lg = Inr mk1"
        "houses_layer libs hg = Inr ci1"
        "children m1 ! 2 = MarkerCluster ''Locations'' mk1"
        "children m1 ! 3 = FeatureGroup ''Houses'' ci1"
    by (elim render_sameinad_Inr) (simp add: numeral_3_eq_3 numeral_2_eq_2)
  from b(5) obtain c2 mk2 ci2 where
    r2: "traverse (location_marker_sameinad libs) lg = Inr mk2"
        "houses_layer libs hg = Inr ci2"
        "children m2 ! 2 = MarkerCluster ''Locations'' mk2"
        "children m2 ! 3 = FeatureGroup ''Houses'' ci2"
    unfolding same hg
    by (elim render_sameinad_Inr) (simp add: numeral_3_eq_3 numeral_2_eq_2)
  have eq: "mk2 = mk1" "ci2 = ci1" using r1 r2 by simp_all
  have l1: "length mk1 = length location_df"
    using traverse_length[OF r1(1)] load_geometry_length[OF a(1)] by simp
  have l2: "length ci1 = length houses_df"
    using houses_layer_length[OF r1(2)] assign_population_length[OF a(4)]
      load_geometry_length[OF a(3)] by simp
  show ?thesis using r1 r2 eq l1 l2 by blast
qed

lemma example_sameinad_filtered_builds2:
  "\<exists>m. fst (map_sameinad example_libs (9::nat) [''Dorne''] example_locations example_kingdoms example_houses) = Inr m"
  by (simp add: example_defs build_defs Let_def upt_rec)

theorem filter_leaves_markers_and_circles_witness:
  "\<exists>m1 m2 markers circles.
     fst (map_sameinad example_libs (7::nat) [] example_locations example_kingdoms example_houses) = Inr m1
   \<and> fst (map_sameinad example_libs (9::nat) [''Dorne''] example_locations example_kingdoms example_houses) = Inr m2
   \<and> children m1 ! 2 = MarkerCluster ''Locations'' markers
   \<and> children m2 ! 2 = MarkerCluster ''Locations'' markers
   \<and> length markers = 2
   \<and> children m1 ! 3 = FeatureGroup ''Houses'' circles
   \<and> children m2 ! 3 = FeatureGroup ''Houses'' circles
   \<and> length circles = 2"
proof -
  obtain m1 where m1: "fst (map_sameinad example_libs (7::nat) [] example_locations
      example_kingdoms example_houses) = Inr m1"
    using example_sameinad_builds by blast
  obtain m2 where m2: "fst (map_sameinad example_libs (9::nat) [''Dorne''] example_locations
      example_kingdoms example_houses) = Inr m2"
    using example_sameinad_filtered_builds2 by blast
  have "length example_locations = 2" "length example_houses = 2"
    by (simp_all add: example_locations_def example_houses_def)
  then show ?thesis using filter_leaves_markers_and_circles[OF m1 m2] m1 m2 by auto
qed

subsection \<open>The kingdom filter\<close>

lemma example_locations_load:
  "load_geometry (shapely example_libs) example_locations = Inr example_location_gdf"
  by (simp add: example_defs load_geometry_def with_geometry_def example_location_gdf_def)

lemma example_kingdoms_load:
  "load_geometry (shapely example_libs) example_kingdoms = Inr example_kingdom_gdf"
  by (simp add: example_defs load_geometry_def with_geometry_def example_kingdom_gdf_def)

lemma set_color_nth:
  "length cs = length ks \<Longrightarrow> i < length ks \<Longrightarrow>
     color (set_color ks cs ! i) = cs ! i \<and> kingdom_row.truncate (set_color ks cs ! i) = ks ! i"
  by (simp add: set_color_def kingdom_row.extend_def kingdom_row.truncate_def
      kingdom_colored.fields_def)

lemma map_center_sameinad_set_color:
  "length cs = length ks \<Longrightarrow>
     map_center_sameinad sh (set_color ks cs) lg = map_center_sameinad sh ks lg"
  by (simp add: map_center_sameinad_def set_color_geometry set_color_Nil_iff)

lemma kingdom_colors_same: "kingdom_colors_sameinad mpl n = kingdom_colors_map_py mpl n"
  by (simp add: kingdom_colors_sameinad_def kingdom_colors_map_py_def)

lemma kingdom_colors_sameinad_nth:
  "i < n \<Longrightarrow> kingdom_colors_sameinad mpl n ! i =
     rgb2hex mpl (get_cmap mpl ''rainbow'' n (of_nat i / of_nat n))"
  by (simp add: kingdom_colors_sameinad_def)

text \<open>
  C4. In a build of \<^verbatim>\<open>sameinad.py\<close> that succeeds, let \<open>K\<close> be the kingdoms whose name is
  in the selection when the selection is not empty, and all kingdoms when it is empty.
  The polygon layer holds exactly the rows of \<open>K\<close>, in order, the row at position \<open>i\<close>
  coloured by the sample at \<open>i / N\<close> of the colormap of \<open>N = length K\<close> entries, and the
  map is centred on the centre computed from \<open>K\<close>. With an empty selection the colours
  are those the unfiltered build of \<^verbatim>\<open>map.py\<close> assigns to the whole collection.
\<close>

theorem filter_before_colors_and_center:
  assumes "load_geometry (shapely libs) location_df = Inr location_gdf"
    and "load_geometry (shapely libs) kingdom_df = Inr kingdom_gdf"
    and "fst (map_sameinad libs st sel location_df kingdom_df houses_df) = Inr m"
  shows "let K = (if sel \<noteq> [] then filter (\<lambda>k. name k \<in> set sel) kingdom_gdf else kingdom_gdf);
             N = length K
         in \<exists>feats c.
              children m ! 1 = kingdoms_layer_sameinad feats
            \<and> length feats = N
            \<and> (\<forall>i < N. kingdom_row.truncate (feats ! i) = K ! i
                  \<and> color (feats ! i) =
                      rgb2hex (matplotlib libs)
                        (get_cmap (matplotlib libs) ''rainbow'' N (of_nat i / of_nat N)))
            \<and> map_center_sameinad (shapely libs) K location_gdf = Inr c
            \<and> location m = (snd c, fst c)
            \<and> (sel = [] \<longrightarrow>
                  map color feats = kingdom_colors_map_py (matplotlib libs) (length kingdom_gdf))"
proof -
  let ?K = "filter_kingdoms sel kingdom_gdf"
  let ?N = "length ?K"
  let ?cs = "kingdom_colors_sameinad (matplotlib libs) ?N"
  let ?feats = "set_color ?K ?cs"
  have len: "length ?cs = length ?K" by (rule kingdom_colors_sameinad_length)
  from assms(3) obtain lg kg hg where
    l: "load_geometry (shapely libs) location_df = Inr lg"
       "load_geometry (shapely libs) kingdom_df = Inr kg"
    and r: "render_sameinad libs sel lg kg hg = Inr m"
    by (rule map_sameinad_Inr)
  have same: "lg = location_gdf" "kg = kingdom_gdf" using l assms(1,2) by simp_all
  from r obtain c where
    c: "map_center_sameinad (shapely libs) ?feats location_gdf = Inr c"
    and m: "children m ! 1 = kingdoms_layer_sameinad ?feats" "location m = (snd c, fst c)"
    unfolding same by (elim render_sameinad_Inr) simp
  have c': "map_center_sameinad (shapely libs) ?K location_gdf = Inr c"
    using c by (simp add: map_center_sameinad_set_color[OF len])
  have rows: "\<forall>i < ?N. kingdom_row.truncate (?feats ! i) = ?K ! i
      \<and> color (?feats ! i) =
          rgb2hex (matplotlib libs) (get_cmap (matplotlib libs) ''rainbow'' ?N (of_nat i / of_nat ?N))"
    by (simp add: set_color_nth[OF len] kingdom_colors_sameinad_nth)
  have cols: "map color ?feats = ?cs"
    by (rule nth_equalityI) (simp_all add: set_color_length[OF len] len set_color_nth[OF len])
  have full: "sel = [] \<longrightarrow> map color ?feats = kingdom_colors_map_py (matplotlib libs) (length kingdom_gdf)"
  proof
    assume e: "sel = []"
    then have "?K = kingdom_gdf" by (simp add: filter_kingdoms_def)
    then show "map color ?feats = kingdom_colors_map_py (matplotlib libs) (length kingdom_gdf)"
      using cols by (simp add: kingdom_colors_same)
  qed
  have K: "?K = (if sel \<noteq> [] then filter (\<lambda>k. name k \<in> set sel) kingdom_gdf else kingdom_gdf)"
    by (simp add: filter_kingdoms_def)
  have "\<exists>feats c.
              children m ! 1 = kingdoms_layer_sameinad feats
            \<and> length feats = ?N
            \<and> (\<forall>i < ?N. kingdom_row.truncate (feats ! i) = ?K ! i
                  \<and> color (feats ! i) =
                      rgb2hex (matplotlib libs)
                        (get_cmap (matplotlib libs) ''rainbow'' ?N (of_nat i / of_nat ?N)))
            \<and> map_center_sameinad (shapely libs) ?K location_gdf = Inr c
            \<and> location m = (snd c, fst c)
            \<and> (sel = [] \<longrightarrow>
                  map color feats = kingdom_colors_map_py (matplotlib libs) (length kingdom_gdf))"
    using m c' rows full set_color_length[OF len] by blast
  then show ?thesis unfolding Let_def K[symmetric] .
qed


theorem filter_before_colors_and_center_witness:
  "(\<exists>m feats. fst (map_sameinad example_libs (7::nat) [''Dorne''] example_locations
                   example_kingdoms example_houses) = Inr m
       \<and> children m ! 1 = kingdoms_layer_sameinad feats
       \<and> length feats = 1 \<and> name (feats ! 0) = ''Dorne'' \<and> color (feats ! 0) = ''#8000ff''
       \<and> location m = (2, 21))
   \<and> (\<exists>m feats. fst (map_sameinad example_libs (7::nat) [] example_locations
                   example_kingdoms example_houses) = Inr m
       \<and> children m ! 1 = kingdoms_layer_sameinad feats
       \<and> length feats = 2 \<and> map color feats = [''#8000ff'', ''#00b5eb'']
       \<and> location m = (13 / 2, 33 / 2))"
proof -
  obtain m where m: "fst (map_sameinad example_libs (7::nat) [''Dorne''] example_locations
      example_kingdoms example_houses) = Inr m"
    using example_sameinad_filtered_builds by blast
  obtain m' where m': "fst (map_sameinad example_libs (7::nat) [] example_locations
      example_kingdoms example_houses) = Inr m'"
    using example_sameinad_builds by blast
  have a: "\<exists>feats. children m ! 1 = kingdoms_layer_sameinad feats
       \<and> length feats = 1 \<and> name (feats ! 0) = ''Dorne'' \<and> color (feats ! 0) = ''#8000ff''
       \<and> location m = (2, 21)"
    using filter_before_colors_and_center[OF example_locations_load example_kingdoms_load m]
    by (auto simp: Let_def example_kingdom_gdf_def example_location_gdf_def example_defs
        map_center_sameinad_def first_coord_def kingdom_row.truncate_def)
  have b: "\<exists>feats. children m' ! 1 = kingdoms_layer_sameinad feats
       \<and> length feats = 2 \<and> map color feats = [''#8000ff'', ''#00b5eb'']
       \<and> location m' = (13 / 2, 33 / 2)"
    using filter_before_colors_and_center[OF example_locations_load example_kingdoms_load m']
    by (auto simp: Let_def example_kingdom_gdf_def example_location_gdf_def example_defs
        map_center_sameinad_def first_coord_def kingdom_colors_map_py_def upt_rec)
  show ?thesis using m m' a b by auto
qed

subsection \<open>The centre of the map\<close>

lemma first_coord_Inr: "first_coord cs = Inr c \<Longrightarrow> \<exists>rest. cs = c # rest"
  by (cases cs) (simp_all add: first_coord_def)

lemma map_center_map_py_Inr:
  "map_center_map_py sh lg = Inr loc \<Longrightarrow>
     \<exists>x y. point_x sh (centroid sh (unary_union sh (map geometry lg))) = Inr x
         \<and> point_y sh (centroid sh (unary_union sh (map geometry lg))) = Inr y \<and> loc = (y, x)"
  by (auto simp: map_center_map_py_def Let_def split: sum.splits)

lemma render_sameinad_no_coords:
  assumes "coords (shapely libs) (centroid (shapely libs) (unary_union (shapely libs)
      (if filter_kingdoms sel kg \<noteq> [] then map geometry (filter_kingdoms sel kg)
       else map geometry lg))) = []"
  shows "render_sameinad libs sel lg kg hg = Inl IndexError"
proof -
  let ?K = "filter_kingdoms sel kg"
  let ?cs = "kingdom_colors_sameinad (matplotlib libs) (length ?K)"
  have len: "length ?cs = length ?K" by (rule kingdom_colors_sameinad_length)
  have "map_center_sameinad (shapely libs) (set_color ?K ?cs) lg = Inl IndexError"
    unfolding map_center_sameinad_set_color[OF len]
    using assms by (simp add: map_center_sameinad_def first_coord_def split: if_splits)
  then show ?thesis by (simp add: render_sameinad_def Let_def)
qed

text \<open>
  C1 (as amended). With the locations and kingdoms parsed: a build of \<^verbatim>\<open>sameinad.py\<close>
  that succeeds with a filtered kingdom collection that is not empty is centred on the
  first coordinate of the centroid of the union of that collection's geometries; a build
  of \<^verbatim>\<open>map.py\<close> that succeeds is centred on the centroid of the union of the location
  geometries, whatever the kingdoms are; and when both collections are empty and the
  centroid of an empty union has no coordinates, the build of \<^verbatim>\<open>sameinad.py\<close> fails
  with \<open>IndexError\<close> (the settlements being parsed and given their populations).
\<close>

theorem map_center_source:
  assumes "load_geometry (shapely libs) location_df = Inr location_gdf"
    and "load_geometry (shapely libs) kingdom_df = Inr kingdom_gdf"
  shows
    "(let K = filter_kingdoms sel kingdom_gdf;
          ctr = centroid (shapely libs) (unary_union (shapely libs) (map geometry location_gdf))
      in (fst (map_sameinad libs st sel location_df kingdom_df houses_df) = Inr m \<and> K \<noteq> [] \<longrightarrow>
            (\<exists>c rest. coords (shapely libs)
                 (centroid (shapely libs) (unary_union (shapely libs) (map geometry K))) = c # rest
               \<and> location m = (snd c, fst c)))
       \<and> (fst (map_map_py libs st' location_df kingdom_df houses_df) = Inr m' \<longrightarrow>
            (\<exists>x y. point_x (shapely libs) ctr = Inr x \<and> point_y (shapely libs) ctr = Inr y
                \<and> location m' = (y, x)))
       \<and> (load_geometry (shapely libs) houses_df = Inr houses_gdf
            \<and> length (fst (randint (np_random libs) (seed (np_random libs) 42) 100 5000
                   (length houses_gdf))) = length houses_gdf
            \<and> K = [] \<and> location_gdf = []
            \<and> coords (shapely libs) (centroid (shapely libs) (unary_union (shapely libs) [])) = []
            \<longrightarrow>
            fst (map_sameinad libs st sel location_df kingdom_df houses_df) = Inl IndexError))"
proof -
  let ?sh = "shapely libs"
  let ?K = "filter_kingdoms sel kingdom_gdf"
  let ?ctr = "centroid ?sh (unary_union ?sh (map geometry location_gdf))"
  have a: "\<exists>c rest. coords ?sh (centroid ?sh (unary_union ?sh (map geometry ?K))) = c # rest
      \<and> location m = (snd c, fst c)"
    if "fst (map_sameinad libs st sel location_df kingdom_df houses_df) = Inr m" and "?K \<noteq> []"
  proof -
    from that(1) obtain lg kg hg where
      l: "load_geometry ?sh location_df = Inr lg" "load_geometry ?sh kingdom_df = Inr kg"
      and r: "render_sameinad libs sel lg kg hg = Inr m"
      by (rule map_sameinad_Inr)
    have same: "lg = location_gdf" "kg = kingdom_gdf" using l assms by simp_all
    let ?col = "kingdom_colors_sameinad (matplotlib libs) (length ?K)"
    have len: "length ?col = length ?K" by (rule kingdom_colors_sameinad_length)
    from r obtain c where
      "map_center_sameinad ?sh (set_color ?K ?col) location_gdf = Inr c"
      and loc: "location m = (snd c, fst c)"
      unfolding same by (elim render_sameinad_Inr) simp
    then have "map_center_sameinad ?sh ?K location_gdf = Inr c"
      by (simp add: map_center_sameinad_set_color[OF len])
    then have "first_coord (coords ?sh (centroid ?sh (unary_union ?sh (map geometry ?K)))) = Inr c"
      using that(2) by (simp add: map_center_sameinad_def)
    from first_coord_Inr[OF this] loc show ?thesis by blast
  qed
  have b: "\<exists>x y. point_x ?sh ?ctr = Inr x \<and> point_y ?sh ?ctr = Inr y \<and> location m' = (y, x)"
    if "fst (map_map_py libs st' location_df kingdom_df houses_df) = Inr m'"
  proof -
    from that obtain lg kg hg where
      l: "load_geometry ?sh location_df = Inr lg"
      and r: "render_map_py libs lg kg hg = Inr m'"
      by (rule map_map_py_Inr)
    have same: "lg = location_gdf" using l assms by simp
    from r obtain loc where "map_center_map_py ?sh location_gdf = Inr loc" "location m' = loc"
      unfolding same by (elim render_map_py_Inr) simp
    with map_center_map_py_Inr[of ?sh location_gdf loc] show ?thesis by auto
  qed
  have c: "fst (map_sameinad libs st sel location_df kingdom_df houses_df) = Inl IndexError"
    if "load_geometry ?sh houses_df = Inr houses_gdf"
      and "length (fst (randint (np_random libs) (seed (np_random libs) 42) 100 5000
                   (length houses_gdf))) = length houses_gdf"
      and "?K = []" and "location_gdf = []"
      and "coords ?sh (centroid ?sh (unary_union ?sh [])) = []"
  proof -
    have "coords ?sh (centroid ?sh (unary_union ?sh
        (if ?K \<noteq> [] then map geometry ?K else map geometry location_gdf))) = []"
      using that(3,4,5) by simp
    from render_sameinad_no_coords[OF this] that(1,2) assms show ?thesis
      by (auto simp: map_sameinad_def assign_population_def Let_def split: prod.splits)
  qed
  show ?thesis unfolding Let_def using a b c by blast
qed

text \<open>
  The claim as stated fails on \<^verbatim>\<open>map.py\<close>: with two kingdoms whose union has its centroid
  at (33/2, 13/2), the map is centred on the centroid of the locations, \<open>[4, 2]\<close> as
  \<open>[lat, lon]\<close>.
\<close>

theorem map_center_source_counterexample:
  "(case fst (map_map_py example_libs (7::nat) example_locations example_kingdoms example_houses) of
      Inl e \<Rightarrow> None
    | Inr m \<Rightarrow> Some (location m)) = Some (4, 2)
   \<and> example_kingdom_gdf \<noteq> []
   \<and> first_coord (coords example_shapely (centroid example_shapely
        (unary_union example_shapely (map geometry example_kingdom_gdf)))) = Inr (33 / 2, 13 / 2)"
  by (simp add: example_defs build_defs Let_def upt_rec example_kingdom_gdf_def)

lemma empty_frame_load: "load_geometry sh [] = Inr []"
  by (simp add: load_geometry_def)

theorem map_center_source_witness:
  "(\<exists>m. fst (map_sameinad example_libs (7::nat) [''Dorne''] example_locations example_kingdoms
             example_houses) = Inr m \<and> location m = (2, 21))
   \<and> (\<exists>m'. fst (map_map_py example_libs (7::nat) example_locations example_kingdoms
             example_houses) = Inr m' \<and> location m' = (4, 2))
   \<and> fst (map_sameinad example_libs (7::nat) [''Other Regions''] [] example_kingdoms [])
       = (Inl IndexError :: error + (rat \<times> rat) list kingdom_colored folium_map)"
proof -
  obtain m1 where m1: "fst (map_sameinad example_libs (7::nat) [''Dorne''] example_locations
      example_kingdoms example_houses) = Inr m1"
    using example_sameinad_filtered_builds by blast
  obtain m' where m': "fst (map_map_py example_libs (7::nat) example_locations example_kingdoms
      example_houses) = Inr m'"
    using example_map_py_builds by blast
  have a: "location m1 = (2, 21)" "location m' = (4, 2)"
    using m1 m'
      map_center_source[OF example_locations_load example_kingdoms_load,
        where sel = "[''Dorne'']" and st = "7::nat" and st' = "7::nat"
          and houses_df = example_houses and m = m1 and m' = m']
    by (auto simp: Let_def filter_kingdoms_def example_kingdom_gdf_def example_location_gdf_def
        example_defs)
  have c: "fst (map_sameinad example_libs (7::nat) [''Other Regions''] [] example_kingdoms [])
       = (Inl IndexError :: error + (rat \<times> rat) list kingdom_colored folium_map)"
    using map_center_source[OF empty_frame_load example_kingdoms_load,
        where sel = "[''Other Regions'']" and st = "7::nat" and houses_df = "[]"
          and houses_gdf = "[]"]
    by (simp add: Let_def filter_kingdoms_def example_kingdom_gdf_def example_defs
        empty_frame_load)
  show ?thesis using m1 m' a c by auto
qed

subsection \<open>A build without a kingdom\<close>

text \<open>
  C2, at a selection that matches no kingdom. \<^verbatim>\<open>sameinad.py\<close> takes its \<^verbatim>\<open>else\<close> branch
  for \<open>n = 0\<close> and assigns \<^verbatim>\<open>'gray'\<close> to the empty colour column; the build goes on and
  fails with \<open>AssertionError\<close> when the map is rendered, the polygon layer having no
  feature. \<^verbatim>\<open>map.py\<close>, given no kingdom row, fails at the same step.
\<close>

theorem no_kingdom_build_aborts:
  "kingdom_colors_sameinad (matplotlib example_libs) 0 = []
   \<and> fst (map_sameinad example_libs (7::nat) [''Other Regions''] example_locations
          example_kingdoms example_houses)
       = (Inl AssertionError :: error + (rat \<times> rat) list kingdom_colored folium_map)
   \<and> fst (map_map_py example_libs (7::nat) example_locations [] example_houses)
       = (Inl AssertionError :: error + (rat \<times> rat) list kingdom_feature folium_map)"
  by (simp add: example_defs build_defs Let_def upt_rec)

text \<open>
  In general: no build of \<^verbatim>\<open>sameinad.py\<close> succeeds when the filter leaves no kingdom,
  and no build of \<^verbatim>\<open>map.py\<close> when there is no kingdom row.
\<close>

theorem empty_polygon_layer_aborts:
  assumes "load_geometry (shapely libs) kingdom_df = Inr kingdom_gdf"
  shows "(filter_kingdoms sel kingdom_gdf = [] \<longrightarrow>
            (\<forall>m. fst (map_sameinad libs st sel location_df kingdom_df houses_df) \<noteq> Inr m))
       \<and> (kingdom_gdf = [] \<longrightarrow>
            (\<forall>m. fst (map_map_py libs st' location_df' kingdom_df houses_df') \<noteq> Inr m))"
proof (intro conjI impI allI notI)
  fix m
  assume e: "filter_kingdoms sel kingdom_gdf = []"
    and "fst (map_sameinad libs st sel location_df kingdom_df houses_df) = Inr m"
  then obtain lg kg hg where
    l: "load_geometry (shapely libs) kingdom_df = Inr kg"
    and r: "render_sameinad libs sel lg kg hg = Inr m"
    by (elim map_sameinad_Inr)
  have "kg = kingdom_gdf" using l assms by simp
  with r have "filter_kingdoms sel kingdom_gdf \<noteq> []" by (elim render_sameinad_Inr) simp
  with e show False by simp
next
  fix m
  assume e: "kingdom_gdf = []"
    and "fst (map_map_py libs st' location_df' kingdom_df houses_df') = Inr m"
  then obtain lg kg hg where
    l: "load_geometry (shapely libs) kingdom_df = Inr kg"
    and r: "render_map_py libs lg kg hg = Inr m"
    by (elim map_map_py_Inr)
  have "kg = kingdom_gdf" using l assms by simp
  with r have "kingdom_gdf \<noteq> []" by (elim render_map_py_Inr) simp
  with e show False by simp
qed

theorem empty_polygon_layer_aborts_witness:
  "filter_kingdoms [''Other Regions''] example_kingdom_gdf = []
   \<and> (\<forall>m. fst (map_sameinad example_libs (7::nat) [''Other Regions''] example_locations
              example_kingdoms example_houses) \<noteq> Inr m)
   \<and> (\<forall>m. fst (map_map_py example_libs (7::nat) example_locations [] example_houses)
          \<noteq> (Inr m :: error + (rat \<times> rat) list kingdom_feature folium_map))"
proof -
  have f: "filter_kingdoms [''Other Regions''] example_kingdom_gdf = []"
    by (simp add: filter_kingdoms_def example_kingdom_gdf_def)
  have a: "\<forall>m. fst (map_sameinad example_libs (7::nat) [''Other Regions''] example_locations
              example_kingdoms example_houses) \<noteq> Inr m"
    using empty_polygon_layer_aborts[OF example_kingdoms_load,
        where sel = "[''Other Regions'']", THEN conjunct1] f
    by blast
  have b: "\<forall>m. fst (map_map_py example_libs (7::nat) example_locations [] example_houses)
          \<noteq> (Inr m :: error + (rat \<times> rat) list kingdom_feature folium_map)"
    using empty_polygon_layer_aborts[OF empty_frame_load, where libs = example_libs
        and st' = "7::nat" and location_df' = example_locations
        and houses_df' = example_houses, THEN conjunct2]
    by blast
  show ?thesis using f a b by blast
qed

subsection \<open>The synthetic populations\<close>

lemma population_of_column:
  "length pops = length hs \<Longrightarrow>
     map (population \<circ> (\<lambda>(r, p). location_row.extend r (house_row.fields p))) (zip hs pops) = pops"
  by (rule nth_equalityI) (simp_all add: location_row.extend_def house_row.fields_def)


lemma map_sameinad_state_free:
  "fst (map_sameinad libs st1 sel location_df kingdom_df houses_df)
     = fst (map_sameinad libs st2 sel location_df kingdom_df houses_df)"
  unfolding map_sameinad_def assign_population_state_free[of _ st1 _ st2]
  by (simp split: sum.splits prod.splits)

lemma map_map_py_state_free:
  "fst (map_map_py libs st1 location_df kingdom_df houses_df)
     = fst (map_map_py libs st2 location_df kingdom_df houses_df)"
  unfolding map_map_py_def assign_population_state_free[of _ st1 _ st2]
  by (simp split: sum.splits prod.splits)

text \<open>
  C5. The populations drawn for two settlement frames of the same length are the same
  sequence, element by element, whatever state the generator was in before each run,
  and the generator is left in the same state; so the result of a whole build does not
  depend on that state either.
\<close>

theorem population_deterministic:
  assumes "length houses1 = length houses2"
  shows "map_sum id (map population) (fst (assign_population np st1 houses1))
           = map_sum id (map population) (fst (assign_population np st2 houses2))
       \<and> snd (assign_population np st1 houses1) = snd (assign_population np st2 houses2)
       \<and> fst (map_sameinad libs st1 sel location_df kingdom_df houses_df)
           = fst (map_sameinad libs st2 sel location_df kingdom_df houses_df)
       \<and> fst (map_map_py libs st1 location_df kingdom_df houses_df)
           = fst (map_map_py libs st2 location_df kingdom_df houses_df)"
proof -
  have "map_sum id (map population) (fst (assign_population np st1 houses1))
           = map_sum id (map population) (fst (assign_population np st2 houses2))
       \<and> snd (assign_population np st1 houses1) = snd (assign_population np st2 houses2)"
    using assms
    by (auto simp: assign_population_def Let_def population_of_column split: prod.splits)
  then show ?thesis
    using map_sameinad_state_free[of libs st1 sel location_df kingdom_df houses_df st2]
      map_map_py_state_free[of libs st1 location_df kingdom_df houses_df st2]
    by simp
qed

theorem population_deterministic_witness:
  "length example_location_gdf = length (rev example_location_gdf)
   \<and> map_sum id (map population) (fst (assign_population example_np_random 0 example_location_gdf))
        = Inr [1654, 2663]
   \<and> map_sum id (map population)
        (fst (assign_population example_np_random 99 (rev example_location_gdf)))
        = Inr [1654, 2663]"
proof -
  have l: "length example_location_gdf = length (rev example_location_gdf)" by simp
  have "map_sum id (map population) (fst (assign_population example_np_random 0 example_location_gdf))
        = Inr [1654, 2663]"
    by (simp add: assign_population_def example_np_random_def example_location_gdf_def Let_def
        upt_rec location_row.extend_def house_row.fields_def)
  then show ?thesis
    using population_deterministic[OF l, where np = example_np_random and ?st1.0 = 0
        and ?st2.0 = 99, THEN conjunct1]
    by simp
qed





subsection \<open>Location markers\<close>

lemma folium_Marker_Inr_iff:
  "(\<exists>mk. folium_Marker libs g pop ic = Inr mk) \<longleftrightarrow>
   (\<exists>y x. point_y (shapely libs) g = Inr y \<and> point_x (shapely libs) g = Inr x
        \<and> validate_location libs (y, x))"
  by (auto simp: folium_Marker_def split: sum.splits)

lemma folium_Marker_icon: "folium_Marker libs g pop ic = Inr mk \<Longrightarrow> marker_icon mk = ic"
  by (auto simp: folium_Marker_def split: sum.splits if_splits)

lemma folium_Marker_icon_free:
  "folium_Marker libs g pop ic = Inl e \<Longrightarrow> folium_Marker libs g pop' ic' = Inl e"
  by (auto simp: folium_Marker_def split: sum.splits if_splits)

lemma location_marker_sameinad_eq:
  "location_marker_sameinad libs row =
     folium_Marker libs (geometry row) \<lparr>html = popup_content_location row, max_width = 300\<rparr>
       \<lparr>icon = dict_get icon_mapping (type row) ''info-circle'', prefix = ''fa'',
        icon_color = ''white'', marker_color = dict_get color_mapping (type row) ''gray''\<rparr>"
proof (cases "folium_Marker libs (geometry row) \<lparr>html = popup_content_location row, max_width = 300\<rparr>
       \<lparr>icon = dict_get icon_mapping (type row) ''info-circle'', prefix = ''fa'',
        icon_color = ''white'', marker_color = dict_get color_mapping (type row) ''gray''\<rparr>")
  case (Inl e)
  then show ?thesis
    using folium_Marker_icon_free[OF Inl]
    by (cases e) (simp_all add: location_marker_sameinad_def Let_def)
next
  case (Inr mk)
  then show ?thesis by (simp add: location_marker_sameinad_def Let_def)
qed

text \<open>
  C7 (as amended). The lookups by location type never fail, in either file: the marker
  of a location is built exactly when the geometry has a \<open>y\<close> and an \<open>x\<close> that folium
  accepts as a location, whatever the type is. In \<^verbatim>\<open>sameinad.py\<close> a type that is no key of
  the tables gets the icon \<^verbatim>\<open>info-circle\<close> and the colour \<^verbatim>\<open>gray\<close>, and a key gets the
  icon and the colour the two tables give. In \<^verbatim>\<open>map.py\<close> a type that is no key gets the
  icon \<^verbatim>\<open>fa-info-circle\<close>, a key gets the icon of the table, and every marker is
  \<^verbatim>\<open>blue\<close>.
\<close>

theorem location_marker_lookups:
  "((\<exists>mk. location_marker_sameinad libs row = Inr mk) \<longleftrightarrow>
      (\<exists>y x. point_y (shapely libs) (geometry row) = Inr y
           \<and> point_x (shapely libs) (geometry row) = Inr x \<and> validate_location libs (y, x)))
   \<and> ((\<exists>mk. location_marker_map_py libs row = Inr mk) \<longleftrightarrow>
      (\<exists>y x. point_y (shapely libs) (geometry row) = Inr y
           \<and> point_x (shapely libs) (geometry row) = Inr x \<and> validate_location libs (y, x)))
   \<and> (\<forall>mk. location_marker_sameinad libs row = Inr mk \<longrightarrow>
         (type row \<notin> fst ` set icon_mapping \<longrightarrow>
            marker_icon mk = \<lparr>icon = ''info-circle'', prefix = ''fa'', icon_color = ''white'',
                              marker_color = ''gray''\<rparr>)
       \<and> (\<forall>ic col. map_of icon_mapping (type row) = Some ic
              \<and> map_of color_mapping (type row) = Some col \<longrightarrow>
            marker_icon mk = \<lparr>icon = ic, prefix = ''fa'', icon_color = ''white'',
                              marker_color = col\<rparr>))
   \<and> (\<forall>mk. location_marker_map_py libs row = Inr mk \<longrightarrow>
         (type row \<notin> fst ` set type_icon_mapping \<longrightarrow>
            marker_icon mk = \<lparr>icon = ''fa-info-circle'', prefix = ''fa'', icon_color = ''white'',
                              marker_color = ''blue''\<rparr>)
       \<and> (\<forall>ic. map_of type_icon_mapping (type row) = Some ic \<longrightarrow>
            marker_icon mk = \<lparr>icon = ic, prefix = ''fa'', icon_color = ''white'',
                              marker_color = ''blue''\<rparr>))"
proof -
  have keys: "fst ` set color_mapping = fst ` set icon_mapping"
    by (simp add: color_mapping_def icon_mapping_def)
  have none: "type row \<notin> fst ` set icon_mapping \<Longrightarrow>
      dict_get icon_mapping (type row) ''info-circle'' = ''info-circle''
      \<and> dict_get color_mapping (type row) ''gray'' = ''gray''"
    using keys by (simp add: dict_get_def map_of_eq_None_iff[THEN iffD2])
  have none': "type row \<notin> fst ` set type_icon_mapping \<Longrightarrow>
      dict_get type_icon_mapping (type row) ''fa-info-circle'' = ''fa-info-circle''"
    by (simp add: dict_get_def map_of_eq_None_iff[THEN iffD2])
  have a: "(\<exists>mk. location_marker_sameinad libs row = Inr mk) \<longleftrightarrow>
      (\<exists>y x. point_y (shapely libs) (geometry row) = Inr y
           \<and> point_x (shapely libs) (geometry row) = Inr x \<and> validate_location libs (y, x))"
    unfolding location_marker_sameinad_eq by (rule folium_Marker_Inr_iff)
  have b: "(\<exists>mk. location_marker_map_py libs row = Inr mk) \<longleftrightarrow>
      (\<exists>y x. point_y (shapely libs) (geometry row) = Inr y
           \<and> point_x (shapely libs) (geometry row) = Inr x \<and> validate_location libs (y, x))"
    unfolding location_marker_map_py_def Let_def by (rule folium_Marker_Inr_iff)
  have c: "marker_icon mk = \<lparr>icon = dict_get icon_mapping (type row) ''info-circle'', prefix = ''fa'',
        icon_color = ''white'', marker_color = dict_get color_mapping (type row) ''gray''\<rparr>"
    if "location_marker_sameinad libs row = Inr mk" for mk
    using that unfolding location_marker_sameinad_eq by (rule folium_Marker_icon)
  have d: "marker_icon mk = \<lparr>icon = dict_get type_icon_mapping (type row) ''fa-info-circle'',
        prefix = ''fa'', icon_color = ''white'', marker_color = ''blue''\<rparr>"
    if "location_marker_map_py libs row = Inr mk" for mk
    using that unfolding location_marker_map_py_def Let_def by (rule folium_Marker_icon)
  show ?thesis
    apply (intro conjI allI impI)
    subgoal using a by blast
    subgoal using b by blast
    subgoal for mk using c[of mk] none by simp
    subgoal for mk ic col using c[of mk] by (simp add: dict_get_def)
    subgoal for mk using d[of mk] none' by simp
    subgoal for mk ic using d[of mk] by (simp add: dict_get_def)
    done
qed


text \<open>
  The claim as stated fails twice. In \<^verbatim>\<open>map.py\<close> the colour is keyed by nothing: a
  castle and a location of unknown type are both \<^verbatim>\<open>blue\<close>. And a marker can fail for
  its geometry: in \<^verbatim>\<open>sameinad.py\<close> a region (no key of the tables) whose geometry is a
  polygon has no \<open>y\<close>, and the \<^verbatim>\<open>except ValueError\<close> does not catch that.
\<close>

theorem location_marker_lookups_counterexample:
  "map_sum id (\<lambda>mk. marker_color (marker_icon mk))
      (location_marker_map_py example_libs (example_location_gdf ! 0)) = Inr ''blue''
   \<and> map_sum id (\<lambda>mk. marker_color (marker_icon mk))
      (location_marker_map_py example_libs (example_location_gdf ! 1)) = Inr ''blue''
   \<and> type (example_location_gdf ! 0) = ''Castle''
   \<and> type (example_location_gdf ! 1) = ''Harbour''
   \<and> location_marker_sameinad example_libs
        \<lparr>gid = 9, name = ''The Gift'', summary = None,
         geom_wkt = ''POLYGON ((10 10, 14 10, 14 12, 10 12, 10 10))'',
         geometry = [(10, 10), (14, 10), (14, 12), (10, 12)], type = ''Region''\<rparr>
       = Inl AttributeError"
  by (simp add: example_location_gdf_def location_marker_map_py_def location_marker_sameinad_def
      folium_Marker_def example_libs_def example_shapely_def Let_def)

theorem location_marker_lookups_witness:
  "(\<exists>mk. location_marker_sameinad example_libs (example_location_gdf ! 1) = Inr mk
       \<and> marker_icon mk = \<lparr>icon = ''info-circle'', prefix = ''fa'', icon_color = ''white'',
                            marker_color = ''gray''\<rparr>)
   \<and> (\<exists>mk. location_marker_sameinad example_libs (example_location_gdf ! 0) = Inr mk
       \<and> marker_icon mk = \<lparr>icon = ''shield-alt'', prefix = ''fa'', icon_color = ''white'',
                            marker_color = ''red''\<rparr>)
   \<and> (\<exists>mk. location_marker_map_py example_libs (example_location_gdf ! 1) = Inr mk
       \<and> marker_icon mk = \<lparr>icon = ''fa-info-circle'', prefix = ''fa'', icon_color = ''white'',
                            marker_color = ''blue''\<rparr>)
   \<and> (\<exists>mk. location_marker_map_py example_libs (example_location_gdf ! 0) = Inr mk
       \<and> marker_icon mk = \<lparr>icon = ''fa-fort-awesome'', prefix = ''fa'', icon_color = ''white'',
                            marker_color = ''blue''\<rparr>)"
proof -
  let ?r0 = "example_location_gdf ! 0" and ?r1 = "example_location_gdf ! 1"
  note t0 = location_marker_lookups[of example_libs ?r0]
  note t1 = location_marker_lookups[of example_libs ?r1]
  have g0: "\<exists>y x. point_y (shapely example_libs) (geometry ?r0) = Inr y
      \<and> point_x (shapely example_libs) (geometry ?r0) = Inr x
      \<and> validate_location example_libs (y, x)"
    by (simp add: example_location_gdf_def example_libs_def example_shapely_def)
  have g1: "\<exists>y x. point_y (shapely example_libs) (geometry ?r1) = Inr y
      \<and> point_x (shapely example_libs) (geometry ?r1) = Inr x
      \<and> validate_location example_libs (y, x)"
    by (simp add: example_location_gdf_def example_libs_def example_shapely_def)
  have k0: "map_of icon_mapping (type ?r0) = Some ''shield-alt''"
    "map_of color_mapping (type ?r0) = Some ''red''"
    "map_of type_icon_mapping (type ?r0) = Some ''fa-fort-awesome''"
    by (simp_all add: example_location_gdf_def icon_mapping_def color_mapping_def
        type_icon_mapping_def)
  have k1: "type ?r1 \<notin> fst ` set icon_mapping" "type ?r1 \<notin> fst ` set type_icon_mapping"
    by (simp_all add: example_location_gdf_def icon_mapping_def type_icon_mapping_def)
  from t0 g0 obtain a0 b0 where
    m0: "location_marker_sameinad example_libs ?r0 = Inr a0"
        "location_marker_map_py example_libs ?r0 = Inr b0"
    by blast
  from t1 g1 obtain a1 b1 where
    m1: "location_marker_sameinad example_libs ?r1 = Inr a1"
        "location_marker_map_py example_libs ?r1 = Inr b1"
    by blast
  have i0: "marker_icon a0 = \<lparr>icon = ''shield-alt'', prefix = ''fa'', icon_color = ''white'',
                            marker_color = ''red''\<rparr>"
    "marker_icon b0 = \<lparr>icon = ''fa-fort-awesome'', prefix = ''fa'', icon_color = ''white'',
                            marker_color = ''blue''\<rparr>"
    using t0 m0 k0 by blast+
  have i1: "marker_icon a1 = \<lparr>icon = ''info-circle'', prefix = ''fa'', icon_color = ''white'',
                            marker_color = ''gray''\<rparr>"
    "marker_icon b1 = \<lparr>icon = ''fa-info-circle'', prefix = ''fa'', icon_color = ''white'',
                            marker_color = ''blue''\<rparr>"
    using t1 m1 k1 by blast+
  show ?thesis using m0 m1 i0 i1 by blast
qed

subsection \<open>Popups\<close>

text \<open>
  C8, at a kingdom without a summary. In \<^verbatim>\<open>sameinad.py\<close> the popup of a polygon is a
  \<^verbatim>\<open>GeoJsonPopup\<close> over the fields \<^verbatim>\<open>name\<close>, \<^verbatim>\<open>claimedby\<close> and \<^verbatim>\<open>summary\<close>: for
  the kingdom The North, whose summary is NULL, it shows the name, the claimant and a
  null, and the placeholder \<^verbatim>\<open>No summary available.\<close> nowhere. The marker popups of the
  same function and the polygon popup of \<^verbatim>\<open>map.py\<close> go through
  \<open>summary_or_placeholder\<close>.
\<close>

theorem kingdom_popup_without_placeholder:
  "(case fst (map_sameinad example_libs (7::nat) [] example_locations example_kingdoms
       example_houses) of
      Inl e \<Rightarrow> []
    | Inr m \<Rightarrow> concat (map (layer_polygon_popups properties_sameinad) (children m))) =
   [[(''Name:'', Some (JString ''The North'')), (''Claimed By:'', Some (JString ''Stark'')),
     (''Summary:'', Some JNull)],
    [(''Name:'', Some (JString ''Dorne'')), (''Claimed By:'', Some (JString ''Martell'')),
     (''Summary:'', Some (JString ''The southernmost kingdom.''))]]"
  by (simp add: example_defs build_defs Let_def upt_rec detail_values_def properties_sameinad_def
      json_of_summary_def)

subsection \<open>The colours of the kingdoms\<close>

lemma kingdom_colors_map_py_nth:
  "i < n \<Longrightarrow> kingdom_colors_map_py mpl n ! i =
     rgb2hex mpl (get_cmap mpl ''rainbow'' n (of_nat i / of_nat n))"
  by (simp add: kingdom_colors_map_py_def)

lemma set_tooltip_popup_color: "color (set_tooltip_popup r) = color r"
  by (simp add: set_tooltip_popup_def kingdom_colored.extend_def)

text \<open>
  With the kingdoms parsed, in a build that succeeds the polygon layer has one feature
  per kingdom of the \<open>N\<close> that are left after the filter (in \<^verbatim>\<open>map.py\<close>: of all \<open>N\<close>
  kingdoms); the feature at position \<open>i\<close> has the colour \<^verbatim>\<open>rgb2hex(colormap(i / N))\<close>
  of the rainbow colormap of \<open>N\<close> entries, and the layer's style function gives it that
  fill colour, a black outline of weight 2 and the fill opacity 0.5.
\<close>

theorem polygons_styled_by_color:
  assumes "load_geometry (shapely libs) kingdom_df = Inr kingdom_gdf"
  shows
    "(fst (map_sameinad libs st sel location_df kingdom_df houses_df) = Inr m \<longrightarrow>
        (let N = length (filter_kingdoms sel kingdom_gdf)
         in \<exists>g. children m ! 1 = GeoJson g \<and> length (geojson_data g) = N
              \<and> (\<forall>i < N. color (geojson_data g ! i) =
                     rgb2hex (matplotlib libs)
                       (get_cmap (matplotlib libs) ''rainbow'' N (of_nat i / of_nat N))
                   \<and> style_function g (geojson_data g ! i) =
                       \<lparr>fillColor = color (geojson_data g ! i), stroke_color = ''black'',
                        weight = 2, fillOpacity = 1 / 2, opacity = 1\<rparr>)))
     \<and> (fst (map_map_py libs st' location_df' kingdom_df houses_df') = Inr m' \<longrightarrow>
        (let N = length kingdom_gdf
         in \<exists>g. children m' ! 2 = GeoJson g \<and> length (geojson_data g) = N
              \<and> (\<forall>i < N. color (geojson_data g ! i) =
                     rgb2hex (matplotlib libs)
                       (get_cmap (matplotlib libs) ''rainbow'' N (of_nat i / of_nat N))
                   \<and> style_function g (geojson_data g ! i) =
                       \<lparr>fillColor = color (geojson_data g ! i), stroke_color = ''black'',
                        weight = 2, fillOpacity = 1 / 2, opacity = 1\<rparr>)))"
proof -
  let ?mpl = "matplotlib libs"
  have a: "\<exists>g. children m ! 1 = GeoJson g
        \<and> length (geojson_data g) = length (filter_kingdoms sel kingdom_gdf)
        \<and> (\<forall>i < length (filter_kingdoms sel kingdom_gdf). color (geojson_data g ! i) =
               rgb2hex ?mpl (get_cmap ?mpl ''rainbow'' (length (filter_kingdoms sel kingdom_gdf))
                 (of_nat i / of_nat (length (filter_kingdoms sel kingdom_gdf))))
             \<and> style_function g (geojson_data g ! i) =
                 \<lparr>fillColor = color (geojson_data g ! i), stroke_color = ''black'',
                  weight = 2, fillOpacity = 1 / 2, opacity = 1\<rparr>)"
    if "fst (map_sameinad libs st sel location_df kingdom_df houses_df) = Inr m"
  proof -
    let ?K = "filter_kingdoms sel kingdom_gdf"
    let ?cs = "kingdom_colors_sameinad ?mpl (length ?K)"
    let ?feats = "set_color ?K ?cs"
    have len: "length ?cs = length ?K" by (rule kingdom_colors_sameinad_length)
    from that obtain lg kg hg where
      l: "load_geometry (shapely libs) kingdom_df = Inr kg"
      and r: "render_sameinad libs sel lg kg hg = Inr m"
      by (rule map_sameinad_Inr)
    have same: "kg = kingdom_gdf" using l assms by simp
    from r have c: "children m ! 1 = kingdoms_layer_sameinad ?feats"
      unfolding same by (elim render_sameinad_Inr) simp
    obtain g where g: "kingdoms_layer_sameinad ?feats = GeoJson g" "geojson_data g = ?feats"
      "style_function g = style_function_sameinad"
      by (simp add: kingdoms_layer_sameinad_def)
    have "\<forall>i < length ?K. color (?feats ! i) =
               rgb2hex ?mpl (get_cmap ?mpl ''rainbow'' (length ?K) (of_nat i / of_nat (length ?K)))
             \<and> style_function_sameinad (?feats ! i) =
                 \<lparr>fillColor = color (?feats ! i), stroke_color = ''black'',
                  weight = 2, fillOpacity = 1 / 2, opacity = 1\<rparr>"
      by (simp add: set_color_nth[OF len] kingdom_colors_sameinad_nth style_function_sameinad_def)
    with c g set_color_length[OF len] show ?thesis by auto
  qed
  have b: "\<exists>g. children m' ! 2 = GeoJson g
        \<and> length (geojson_data g) = length kingdom_gdf
        \<and> (\<forall>i < length kingdom_gdf. color (geojson_data g ! i) =
               rgb2hex ?mpl (get_cmap ?mpl ''rainbow'' (length kingdom_gdf)
                 (of_nat i / of_nat (length kingdom_gdf)))
             \<and> style_function g (geojson_data g ! i) =
                 \<lparr>fillColor = color (geojson_data g ! i), stroke_color = ''black'',
                  weight = 2, fillOpacity = 1 / 2, opacity = 1\<rparr>)"
    if "fst (map_map_py libs st' location_df' kingdom_df houses_df') = Inr m'"
  proof -
    let ?K = "kingdom_gdf"
    let ?cs = "kingdom_colors_map_py ?mpl (length ?K)"
    let ?feats = "map set_tooltip_popup (set_color ?K ?cs)"
    have len: "length ?cs = length ?K" by (rule kingdom_colors_map_py_length)
    from that obtain lg kg hg where
      l: "load_geometry (shapely libs) kingdom_df = Inr kg"
      and r: "render_map_py libs lg kg hg = Inr m'"
      by (rule map_map_py_Inr)
    have same: "kg = kingdom_gdf" using l assms by simp
    from r have c: "children m' ! 2 = kingdoms_layer_map_py ?feats"
      unfolding same by (elim render_map_py_Inr) (simp add: numeral_2_eq_2)
    obtain g where g: "kingdoms_layer_map_py ?feats = GeoJson g" "geojson_data g = ?feats"
      "style_function g = style_function_map_py"
      by (simp add: kingdoms_layer_map_py_def)
    have "\<forall>i < length ?K. color (?feats ! i) =
               rgb2hex ?mpl (get_cmap ?mpl ''rainbow'' (length ?K) (of_nat i / of_nat (length ?K)))
             \<and> style_function_map_py (?feats ! i) =
                 \<lparr>fillColor = color (?feats ! i), stroke_color = ''black'',
                  weight = 2, fillOpacity = 1 / 2, opacity = 1\<rparr>"
      by (simp add: set_color_length[OF len] set_tooltip_popup_color set_color_nth[OF len]
          kingdom_colors_map_py_nth style_function_map_py_def)
    moreover have "length ?feats = length ?K" by (simp add: set_color_length[OF len])
    ultimately show ?thesis using c g by auto
  qed
  show ?thesis unfolding Let_def using a b by blast
qed

theorem polygons_styled_by_color_witness:
  "(\<exists>m g. fst (map_sameinad example_libs (7::nat) [] example_locations example_kingdoms
               example_houses) = Inr m
       \<and> children m ! 1 = GeoJson g \<and> length (geojson_data g) = 2
       \<and> map (\<lambda>f. fillColor (style_function g f)) (geojson_data g) = [''#8000ff'', ''#00b5eb''])
   \<and> (\<exists>m' g. fst (map_map_py example_libs (7::nat) example_locations example_kingdoms
                example_houses) = Inr m'
       \<and> children m' ! 2 = GeoJson g \<and> length (geojson_data g) = 2
       \<and> map (\<lambda>f. fillColor (style_function g f)) (geojson_data g) = [''#8000ff'', ''#00b5eb''])"
proof -
  obtain m1 where m1: "fst (map_sameinad example_libs (7::nat) [] example_locations
      example_kingdoms example_houses) = Inr m1"
    using example_sameinad_builds by blast
  obtain m' where m': "fst (map_map_py example_libs (7::nat) example_locations example_kingdoms
      example_houses) = Inr m'"
    using example_map_py_builds by blast
  have two: "\<And>P. (\<forall>i<2. P i) \<longleftrightarrow> P (0::nat) \<and> P 1"
    by (auto simp: less_2_cases_iff)
  have a: "\<exists>g. children m1 ! 1 = GeoJson g \<and> length (geojson_data g) = 2
       \<and> map (\<lambda>f. fillColor (style_function g f)) (geojson_data g) = [''#8000ff'', ''#00b5eb'']"
  proof -
    from m1 polygons_styled_by_color[OF example_kingdoms_load,
        where sel = "[]" and st = "7::nat" and location_df = example_locations
          and houses_df = example_houses and m = m1, THEN conjunct1]
    obtain g where g: "children m1 ! 1 = GeoJson g" "length (geojson_data g) = 2"
      "fillColor (style_function g (geojson_data g ! 0)) = ''#8000ff''"
      "fillColor (style_function g (geojson_data g ! 1)) = ''#00b5eb''"
      by (auto simp: Let_def filter_kingdoms_def example_kingdom_gdf_def example_defs two)
    have "map (\<lambda>f. fillColor (style_function g f)) (geojson_data g) = [''#8000ff'', ''#00b5eb'']"
      using g(2,3,4) by (rule_tac nth_equalityI) (auto simp: less_Suc_eq numeral_2_eq_2)
    with g(1,2) show ?thesis by (intro exI[of _ g]) simp
  qed
  have b: "\<exists>g. children m' ! 2 = GeoJson g \<and> length (geojson_data g) = 2
       \<and> map (\<lambda>f. fillColor (style_function g f)) (geojson_data g) = [''#8000ff'', ''#00b5eb'']"
  proof -
    from m' polygons_styled_by_color[OF example_kingdoms_load,
        where st' = "7::nat" and location_df' = example_locations
          and houses_df' = example_houses and m' = m', THEN conjunct2]
    obtain g where g: "children m' ! 2 = GeoJson g" "length (geojson_data g) = 2"
      "fillColor (style_function g (geojson_data g ! 0)) = ''#8000ff''"
      "fillColor (style_function g (geojson_data g ! 1)) = ''#00b5eb''"
      by (auto simp: Let_def example_kingdom_gdf_def example_defs two)
    have "map (\<lambda>f. fillColor (style_function g f)) (geojson_data g) = [''#8000ff'', ''#00b5eb'']"
      using g(2,3,4) by (rule_tac nth_equalityI) (auto simp: less_Suc_eq numeral_2_eq_2)
    with g(1,2) show ?thesis by (intro exI[of _ g]) simp
  qed
  show ?thesis using m1 m' a b by auto
qed

subsection \<open>The popups built from a template\<close>

lemma sublist_mid: "sublist xs (ps @ xs @ ss)"
  by (rule sublist_appendI)

lemma sublist_summary_location:
  "sublist (summary_or_placeholder (summary row)) (popup_content_location row)"
proof -
  have "popup_content_location row =
      (line_start @ ''<b>Name:</b> '' @ name row @ ''<br>'' @ line_start @ ''<b>Type:</b> ''
         @ type row @ ''<br>'' @ line_start @ ''<b>Summary:</b> '')
      @ summary_or_placeholder (summary row) @ line_start"
    by (simp add: popup_content_location_def)
  then show ?thesis by (simp only: sublist_mid)
qed

lemma sublist_summary_house:
  "sublist (summary_or_placeholder (summary row)) (popup_content_house row)"
proof -
  have "popup_content_house row =
      (line_start @ ''<b>Name:</b> '' @ name row @ ''<br>'' @ line_start
         @ ''<b>Population:</b> '' @ str_int (population row) @ ''<br>'' @ line_start
         @ ''<b>Type:</b> '' @ type row @ ''<br>'' @ line_start @ ''<b>Summary:</b> '')
      @ summary_or_placeholder (summary row) @ line_start"
    by (simp add: popup_content_house_def)
  then show ?thesis by (simp only: sublist_mid)
qed

lemma sublist_summary_kingdom:
  "sublist (summary_or_placeholder (summary row)) (kingdom_popup row)"
proof -
  have "kingdom_popup row =
      (line_start @ ''<b>Name:</b> '' @ name row @ ''<br>'' @ line_start
         @ ''<b>Claimed By:</b> '' @ claimedby row @ ''<br>'' @ line_start @ ''<b>Summary:</b> '')
      @ summary_or_placeholder (summary row) @ line_start"
    by (simp add: kingdom_popup_def)
  then show ?thesis by (simp only: sublist_mid)
qed

lemma sublist_name_location: "sublist (name row) (popup_content_location row)"
proof -
  have "popup_content_location row =
      (line_start @ ''<b>Name:</b> '') @ name row @ (''<br>'' @ line_start @ ''<b>Type:</b> ''
         @ type row @ ''<br>'' @ line_start @ ''<b>Summary:</b> ''
         @ summary_or_placeholder (summary row) @ line_start)"
    by (simp add: popup_content_location_def)
  then show ?thesis by (simp only: sublist_mid)
qed

lemma sublist_name_house: "sublist (name row) (popup_content_house row)"
proof -
  have "popup_content_house row =
      (line_start @ ''<b>Name:</b> '') @ name row @ (''<br>'' @ line_start
         @ ''<b>Population:</b> '' @ str_int (population row) @ ''<br>'' @ line_start
         @ ''<b>Type:</b> '' @ type row @ ''<br>'' @ line_start @ ''<b>Summary:</b> ''
         @ summary_or_placeholder (summary row) @ line_start)"
    by (simp add: popup_content_house_def)
  then show ?thesis by (simp only: sublist_mid)
qed

lemma sublist_name_kingdom: "sublist (name row) (kingdom_popup row)"
proof -
  have "kingdom_popup row =
      (line_start @ ''<b>Name:</b> '') @ name row @ (''<br>'' @ line_start
         @ ''<b>Claimed By:</b> '' @ claimedby row @ ''<br>'' @ line_start @ ''<b>Summary:</b> ''
         @ summary_or_placeholder (summary row) @ line_start)"
    by (simp add: kingdom_popup_def)
  then show ?thesis by (simp only: sublist_mid)
qed

lemma folium_Marker_popup: "folium_Marker libs g pop ic = Inr mk \<Longrightarrow> marker_popup mk = pop"
  by (auto simp: folium_Marker_def split: sum.splits if_splits)

lemma folium_CircleMarker_popup:
  "folium_CircleMarker libs g r pop = Inr c \<Longrightarrow> circle_popup c = pop"
  by (auto simp: folium_CircleMarker_def split: sum.splits if_splits)

lemma location_marker_sameinad_html:
  "location_marker_sameinad libs row = Inr mk \<Longrightarrow> html (marker_popup mk) = popup_content_location row"
  unfolding location_marker_sameinad_eq by (drule folium_Marker_popup) simp

lemma location_marker_map_py_html:
  "location_marker_map_py libs row = Inr mk \<Longrightarrow> html (marker_popup mk) = popup_content_location row"
  unfolding location_marker_map_py_def Let_def by (drule folium_Marker_popup) simp

lemma house_circle_html:
  "house_circle libs lo hi row = Inr c \<Longrightarrow> html (circle_popup c) = popup_content_house row"
  unfolding house_circle_def Let_def by (drule folium_CircleMarker_popup) simp

text \<open>
  The popups that are built from a template: the marker of a location (both files), the
  circle of a settlement (both files) and the popup column of a kingdom in \<^verbatim>\<open>map.py\<close>.
  When the summary is NULL or empty the popup contains \<^verbatim>\<open>No summary available.\<close>; when
  there is a summary, the popup contains it, and the name.
\<close>

theorem popups_with_placeholder:
  assumes "location_marker_sameinad libs row = Inr mk"
    and "location_marker_map_py libs row = Inr mk'"
    and "house_circle libs lo hi house = Inr c"
  shows "(summary row = None \<or> summary row = Some [] \<longrightarrow>
           sublist ''No summary available.'' (html (marker_popup mk))
         \<and> sublist ''No summary available.'' (html (marker_popup mk')))
       \<and> (summary house = None \<or> summary house = Some [] \<longrightarrow>
           sublist ''No summary available.'' (html (circle_popup c)))
       \<and> (summary kingdom = None \<or> summary kingdom = Some [] \<longrightarrow>
           sublist ''No summary available.'' (popup (set_tooltip_popup kingdom)))
       \<and> (\<forall>s. summary row = Some s \<and> s \<noteq> [] \<longrightarrow>
           sublist s (html (marker_popup mk)) \<and> sublist (name row) (html (marker_popup mk))
         \<and> sublist s (html (marker_popup mk')) \<and> sublist (name row) (html (marker_popup mk')))
       \<and> (\<forall>s. summary house = Some s \<and> s \<noteq> [] \<longrightarrow>
           sublist s (html (circle_popup c)) \<and> sublist (name house) (html (circle_popup c)))
       \<and> (\<forall>s. summary kingdom = Some s \<and> s \<noteq> [] \<longrightarrow>
           sublist s (popup (set_tooltip_popup kingdom))
         \<and> sublist (name kingdom) (popup (set_tooltip_popup kingdom)))"
proof -
  have h: "html (marker_popup mk) = popup_content_location row"
    "html (marker_popup mk') = popup_content_location row"
    "html (circle_popup c) = popup_content_house house"
    using assms
    by (simp_all add: location_marker_sameinad_html location_marker_map_py_html house_circle_html)
  have k: "popup (set_tooltip_popup kingdom) = kingdom_popup kingdom"
    by (simp add: set_tooltip_popup_def kingdom_colored.extend_def kingdom_feature.fields_def)
  have p: "summary_or_placeholder None = ''No summary available.''"
    "summary_or_placeholder (Some []) = ''No summary available.''"
    "\<And>s. s \<noteq> [] \<Longrightarrow> summary_or_placeholder (Some s) = s"
    by (simp_all add: summary_or_placeholder_def)
  show ?thesis
    unfolding h k
    using sublist_summary_location[of row] sublist_summary_house[of house]
      sublist_summary_kingdom[of kingdom] sublist_name_location[of row]
      sublist_name_house[of house] sublist_name_kingdom[of kingdom] p
    by (auto simp del: sublist_code)
qed


theorem popups_with_placeholder_witness:
  "(\<exists>mk mk' c.
       location_marker_sameinad example_libs (example_location_gdf ! 1) = Inr mk
     \<and> location_marker_map_py example_libs (example_location_gdf ! 1) = Inr mk'
     \<and> house_circle example_libs (Some 100) (Some 5000) (example_settlements ! 1) = Inr c
     \<and> sublist ''No summary available.'' (html (marker_popup mk))
     \<and> sublist ''No summary available.'' (html (marker_popup mk'))
     \<and> sublist ''No summary available.'' (html (circle_popup c))
     \<and> sublist ''No summary available.''
          (popup (set_tooltip_popup
             (kingdom_row.extend (example_kingdom_gdf ! 0) (kingdom_colored.fields ''#8000ff'')))))
   \<and> (\<exists>mk mk' c.
       location_marker_sameinad example_libs (example_location_gdf ! 0) = Inr mk
     \<and> location_marker_map_py example_libs (example_location_gdf ! 0) = Inr mk'
     \<and> house_circle example_libs (Some 100) (Some 5000) (example_settlements ! 0) = Inr c
     \<and> sublist ''Seat of House Stark.'' (html (marker_popup mk))
     \<and> sublist ''Winterfell'' (html (marker_popup mk'))
     \<and> sublist ''Seat of House Stark.'' (html (circle_popup c))
     \<and> sublist ''The southernmost kingdom.''
          (popup (set_tooltip_popup
             (kingdom_row.extend (example_kingdom_gdf ! 1) (kingdom_colored.fields ''#00b5eb'')))))"
proof -
  let ?k0 = "kingdom_row.extend (example_kingdom_gdf ! 0) (kingdom_colored.fields ''#8000ff'')"
  let ?k1 = "kingdom_row.extend (example_kingdom_gdf ! 1) (kingdom_colored.fields ''#00b5eb'')"
  obtain a1 b1 c1 where
    r1: "location_marker_sameinad example_libs (example_location_gdf ! 1) = Inr a1"
        "location_marker_map_py example_libs (example_location_gdf ! 1) = Inr b1"
        "house_circle example_libs (Some 100) (Some 5000) (example_settlements ! 1) = Inr c1"
    by (simp add: example_location_gdf_def example_settlements_def location_marker_sameinad_def
        location_marker_map_py_def house_circle_def folium_Marker_def folium_CircleMarker_def
        example_libs_def example_shapely_def Let_def)
  obtain a0 b0 c0 where
    r0: "location_marker_sameinad example_libs (example_location_gdf ! 0) = Inr a0"
        "location_marker_map_py example_libs (example_location_gdf ! 0) = Inr b0"
        "house_circle example_libs (Some 100) (Some 5000) (example_settlements ! 0) = Inr c0"
    by (simp add: example_location_gdf_def example_settlements_def location_marker_sameinad_def
        location_marker_map_py_def house_circle_def folium_Marker_def folium_CircleMarker_def
        example_libs_def example_shapely_def Let_def)
  have s1: "summary (example_location_gdf ! 1) = None"
    "summary (example_settlements ! 1) = Some []" "summary ?k0 = None"
    by (simp_all add: example_location_gdf_def example_settlements_def example_kingdom_gdf_def
        kingdom_row.extend_def)
  have s0: "summary (example_location_gdf ! 0) = Some ''Seat of House Stark.''"
    "name (example_location_gdf ! 0) = ''Winterfell''"
    "summary (example_settlements ! 0) = Some ''Seat of House Stark.''"
    "summary ?k1 = Some ''The southernmost kingdom.''"
    by (simp_all add: example_location_gdf_def example_settlements_def example_kingdom_gdf_def
        kingdom_row.extend_def)
  have w1: "sublist ''No summary available.'' (html (marker_popup a1))
     \<and> sublist ''No summary available.'' (html (marker_popup b1))
     \<and> sublist ''No summary available.'' (html (circle_popup c1))
     \<and> sublist ''No summary available.'' (popup (set_tooltip_popup ?k0))"
    using popups_with_placeholder[OF r1, where kingdom = ?k0] s1 by blast
  have w0: "sublist ''Seat of House Stark.'' (html (marker_popup a0))
     \<and> sublist ''Winterfell'' (html (marker_popup b0))
     \<and> sublist ''Seat of House Stark.'' (html (circle_popup c0))
     \<and> sublist ''The southernmost kingdom.'' (popup (set_tooltip_popup ?k1))"
    using popups_with_placeholder[OF r0, where kingdom = ?k1] s0
    by (simp del: sublist_code)
  show ?thesis using r0 r1 w0 w1 by blast
qed

end
